theory Spec2Isabelle
  imports Main "HOL-Library.AList"
begin

section \<open>Python values\<close>

text \<open>
  The responses the web layer builds (aiohttp's \<open>web.Response\<close> and its
  \<open>HTTPFound\<close> and \<open>HTTPBadRequest\<close> subclasses). A \<open>Response\<close> holds its
  status, its payload and the content type assigned to it after construction
  (\<open>None\<close> when the code leaves the library's default).
\<close>

datatype payload = NoBody | Body string | Text string

datatype response =
    Response int payload "string option"
  | HTTPFound string
  | HTTPBadRequest string

text \<open>
  The Python values the program handles. \<open>PBool\<close> is a subclass of \<open>int\<close> in
  Python, which \<open>isinstance(v, int)\<close> sees. Dictionaries keep their insertion order
  and have string keys; \<open>PObj\<close> is any other object, known by an identifier only.
  Strings are byte strings (UTF-8), so \<open>encode('utf-8')\<close> is the identity.
\<close>

datatype pyval =
    PNone
  | PBool bool
  | PInt int
  | PStr string
  | PBytes string
  | PTuple "pyval list"
  | PList "pyval list"
  | PDict "(string \<times> pyval) list"
  | PResponse response
  | PObj nat

text \<open>The exceptions of the program; \<open>InvalidLimit v\<close> is
  \<open>ValueError('Invalid limit value: %s' % str(v))\<close>, \<open>DriverError\<close> any exception
  raised by the database driver.\<close>

datatype py_error =
    RuntimeError string
  | ValueError string
  | InvalidLimit pyval
  | KeyError string
  | AttributeError string
  | IndexError
  | DriverError string
  | OtherError string

fun isinstance_int :: "pyval \<Rightarrow> bool" where
  "isinstance_int (PInt _) = True"
| "isinstance_int (PBool _) = True"
| "isinstance_int _ = False"

text \<open>The integer value of an \<open>int\<close> instance (\<open>True\<close> is 1, \<open>False\<close> is 0).\<close>

fun int_value :: "pyval \<Rightarrow> int" where
  "int_value (PInt n) = n"
| "int_value (PBool b) = (if b then 1 else 0)"
| "int_value _ = 0"

text \<open>\<open>', '.join(xs)\<close> and \<open>' '.join(xs)\<close>.\<close>

fun join :: "string \<Rightarrow> string list \<Rightarrow> string" where
  "join sep [] = []"
| "join sep [x] = x"
| "join sep (x # y # ys) = x @ sep @ join sep (y # ys)"

text \<open>\<open>s.startswith(p)\<close>.\<close>

definition startswith :: "string \<Rightarrow> string \<Rightarrow> bool" where
  "startswith s p = (take (length p) s = p)"

section \<open>orm.py: the data-access functions\<close>

text \<open>
  A row of a result is a column-to-value mapping (the driver's \<open>DictCursor\<close>).
  The database driver is outside the repository: it is a record of what each of its
  operations does when called. \<open>acquire_r\<close>, \<open>begin_r\<close>, \<open>commit_r\<close> and
  \<open>rollback_r\<close> give the exception the operation raises, if any; \<open>run_r sql args\<close>
  is what \<open>cur.execute(sql, args)\<close> does: it raises, or leaves the cursor with a
  result set and a row count.
\<close>

type_synonym row = "(string \<times> pyval) list"

record cursor =
  cur_rows :: "row list"
  rowcount :: int

record driver =
  acquire_r :: "py_error option"
  begin_r :: "py_error option"
  run_r :: "string \<Rightarrow> pyval list \<Rightarrow> py_error + cursor"
  commit_r :: "py_error option"
  rollback_r :: "py_error option"

text \<open>What the program does to its surroundings, in order: the log lines of
  \<open>log(sql)\<close> and of \<open>'rows returned'\<close>, the calls to the pool, the connection
  and the cursor, and the warnings about an affected-row count (the message before
  the count, and the count).\<close>

datatype event =
    LogSQL string
  | LogRows nat
  | Acquire
  | Release
  | Begin
  | Commit
  | Rollback
  | CursorOpen
  | CursorClose
  | Execute string "pyval list"
  | FetchMany int
  | FetchAll
  | LogWarning string int

text \<open>Modelled from the spec: the cursor's \<open>fetchmany(size)\<close> of the driver, which
  is not part of the repository, returns at most \<open>size\<close> rows of the result set, the
  first ones; \<open>fetchall()\<close> returns them all.\<close>

definition fetchmany :: "cursor \<Rightarrow> int \<Rightarrow> row list" where
  "fetchmany cur n = take (nat n) (cur_rows cur)"

definition fetchall :: "cursor \<Rightarrow> row list" where
  "fetchall cur = cur_rows cur"

text \<open>\<open>sql.replace('?', '%s')\<close>.\<close>

definition replace_placeholders :: "string \<Rightarrow> string" where
  "replace_placeholders sql = concat (map (\<lambda>c. if c = CHR ''?'' then ''%s'' else [c]) sql)"

text \<open>\<open>args or ()\<close>: \<open>None\<close> and the empty list both give the empty sequence.\<close>

definition args_or_empty :: "pyval list option \<Rightarrow> pyval list" where
  "args_or_empty args = (case args of None \<Rightarrow> [] | Some xs \<Rightarrow> xs)"

text \<open>The branch \<open>if size: rs = await cur.fetchmany(size) else: rs = await
  cur.fetchall()\<close>; \<open>if size:\<close> is Python's truth test, so \<open>None\<close> and 0 both
  take the \<open>else\<close> branch.\<close>

definition fetch :: "cursor \<Rightarrow> int option \<Rightarrow> event \<times> row list" where
  "fetch cur sz =
     (case sz of
        None \<Rightarrow> (FetchAll, fetchall cur)
      | Some n \<Rightarrow> (if n \<noteq> 0 then (FetchMany n, fetchmany cur n) else (FetchAll, fetchall cur)))"

text \<open>\<open>select(sql, args, size=None)\<close>, with \<open>sz\<close> for \<open>size\<close>. The result is
  the trace of events and what the call returns or raises. The pool is the global
  \<open>__pool\<close> that \<open>create_pool\<close> has set.\<close>

definition select :: "driver \<Rightarrow> string \<Rightarrow> pyval list option \<Rightarrow> int option
    \<Rightarrow> event list \<times> (py_error + row list)" where
  "select drv sql args sz =
     (case acquire_r drv of
        Some e \<Rightarrow> ([LogSQL sql], Inl e)
      | None \<Rightarrow>
          (let q = replace_placeholders sql; a = args_or_empty args in
           case run_r drv q a of
             Inl e \<Rightarrow>
               ([LogSQL sql, Acquire, CursorOpen, Execute q a, CursorClose, Release], Inl e)
           | Inr cur \<Rightarrow>
               (let (ev, rs) = fetch cur sz in
                ([LogSQL sql, Acquire, CursorOpen, Execute q a, ev, CursorClose,
                  LogRows (length rs), Release], Inr rs))))"

text \<open>\<open>execute(sql, args, autocommit=True)\<close>. \<open>conn.begin()\<close> is outside the
  \<open>try\<close>; the cursor block and \<open>conn.commit()\<close> are inside it; the handler
  \<open>except BaseException\<close> rolls back when \<open>autocommit\<close> is false and re-raises;
  an exception raised by \<open>conn.rollback()\<close> itself replaces the one being handled.
  Leaving the \<open>async with __pool.get()\<close> block releases the connection.\<close>

definition on_exception :: "driver \<Rightarrow> bool \<Rightarrow> py_error \<Rightarrow> event list \<times> py_error" where
  "on_exception drv autocommit e =
     (if \<not> autocommit then
        (case rollback_r drv of
           Some e' \<Rightarrow> ([Rollback], e')
         | None \<Rightarrow> ([Rollback], e))
      else ([], e))"

definition execute :: "driver \<Rightarrow> string \<Rightarrow> pyval list option \<Rightarrow> bool
    \<Rightarrow> event list \<times> (py_error + int)" where
  "execute drv sql args autocommit =
     (case acquire_r drv of
        Some e \<Rightarrow> ([LogSQL sql], Inl e)
      | None \<Rightarrow>
          (case (if \<not> autocommit then begin_r drv else None) of
             Some e \<Rightarrow> ([LogSQL sql, Acquire, Begin, Release], Inl e)
           | None \<Rightarrow>
               (let started = [LogSQL sql, Acquire] @ (if \<not> autocommit then [Begin] else []);
                    q = replace_placeholders sql; a = args_or_empty args in
                case run_r drv q a of
                  Inl e \<Rightarrow>
                    (let (evs, e') = on_exception drv autocommit e in
                     (started @ [CursorOpen, Execute q a, CursorClose] @ evs @ [Release], Inl e'))
                | Inr cur \<Rightarrow>
                    (let affected = rowcount cur;
                         ran = started @ [CursorOpen, Execute q a, CursorClose] in
                     case (if \<not> autocommit then commit_r drv else None) of
                       Some e \<Rightarrow>
                         (let (evs, e') = on_exception drv autocommit e in
                          (ran @ [Commit] @ evs @ [Release], Inl e'))
                     | None \<Rightarrow>
                         (ran @ (if \<not> autocommit then [Commit] else []) @ [Release],
                          Inr affected)))))"

section \<open>orm.py: fields and the metaclass\<close>

text \<open>\<open>create_args_string(num)\<close>.\<close>

definition create_args_string :: "nat \<Rightarrow> string" where
  "create_args_string num = join '', '' (replicate num ''?'')"

text \<open>A field's default is a value or a zero-argument producer; a producer is
  known by the value its call returns.\<close>

datatype py_default = DefaultValue pyval | DefaultCallable pyval

text \<open>\<open>class Field\<close>; \<open>field_class\<close> is the name of the instance's class
  (\<open>StringField\<close>, ...), which \<open>__str__\<close> prints.\<close>

record field =
  field_class :: string
  field_name :: "string option"
  column_type :: string
  primary_key :: bool
  field_default :: py_default

definition StringField :: "string option \<Rightarrow> bool \<Rightarrow> py_default \<Rightarrow> string \<Rightarrow> field" where
  "StringField name pk dflt ddl =
     \<lparr>field_class = ''StringField'', field_name = name, column_type = ddl,
      primary_key = pk, field_default = dflt\<rparr>"

definition BooleanField :: "string option \<Rightarrow> py_default \<Rightarrow> field" where
  "BooleanField name dflt =
     \<lparr>field_class = ''BooleanField'', field_name = name, column_type = ''boolean'',
      primary_key = False, field_default = dflt\<rparr>"

definition IntegerField :: "string option \<Rightarrow> bool \<Rightarrow> py_default \<Rightarrow> field" where
  "IntegerField name pk dflt =
     \<lparr>field_class = ''IntegerField'', field_name = name, column_type = ''bigint'',
      primary_key = pk, field_default = dflt\<rparr>"

definition TextField :: "string option \<Rightarrow> py_default \<Rightarrow> field" where
  "TextField name dflt =
     \<lparr>field_class = ''TextField'', field_name = name, column_type = ''text'',
      primary_key = False, field_default = dflt\<rparr>"

text \<open>\<open>Field.__str__\<close>.\<close>

definition field_str :: "field \<Rightarrow> string" where
  "field_str f =
     ''<'' @ field_class f @ '', '' @ column_type f @ '':''
       @ (case field_name f of None \<Rightarrow> ''None'' | Some n \<Rightarrow> n) @ ''>''"

text \<open>A value of the class namespace \<open>attrs\<close>: a \<open>Field\<close>, a string, or any other
  object, of which the metaclass uses the truth value and the text \<open>'%s'\<close> prints
  only.\<close>

datatype attr = AField field | AStr string | AObj bool string

fun attr_truthy :: "attr \<Rightarrow> bool" where
  "attr_truthy (AField f) = True"
| "attr_truthy (AStr s) = (s \<noteq> [])"
| "attr_truthy (AObj b s) = b"

fun attr_str :: "attr \<Rightarrow> string" where
  "attr_str (AField f) = field_str f"
| "attr_str (AStr s) = s"
| "attr_str (AObj b s) = s"

text \<open>The truth value of \<open>primaryKey\<close>, which is \<open>None\<close> or an attribute name.\<close>

fun key_truthy :: "string option \<Rightarrow> bool" where
  "key_truthy None = False"
| "key_truthy (Some k) = (k \<noteq> [])"

text \<open>The loop \<open>for k, v in attrs.items()\<close> of \<open>ModelMetaclass.__new__\<close>, on
  the state \<open>(mappings, fields, primaryKey)\<close> (\<open>fields'\<close> below). \<open>attrs\<close> is a dictionary, given by
  its items in order.\<close>

fun collect_fields :: "(string \<times> attr) list
    \<Rightarrow> (string \<times> field) list \<times> string list \<times> string option
    \<Rightarrow> py_error + (string \<times> field) list \<times> string list \<times> string option" where
  "collect_fields [] st = Inr st"
| "collect_fields ((k, AField v) # rest) (mappings, fields', primaryKey) =
     (if primary_key v then
        (if key_truthy primaryKey then
           Inl (RuntimeError (''Duplicate primary key for field: '' @ k))
         else collect_fields rest (AList.update k v mappings, fields', Some k))
      else collect_fields rest (AList.update k v mappings, fields' @ [k], primaryKey))"
| "collect_fields ((k, _) # rest) st = collect_fields rest st"

text \<open>The class the metaclass builds: the metadata it stores in the namespace
  (\<open>__mappings__\<close>, \<open>__table__\<close>, \<open>__primary_key__\<close>, \<open>__fields__\<close>,
  \<open>__select__\<close>, \<open>__insert__\<close>, \<open>__update__\<close>, \<open>__delete__\<close>), and the rest of the namespace. The table
  name is kept as the text \<open>'%s'\<close> prints.\<close>

record model_class =
  class_name :: string
  class_mappings :: "(string \<times> field) list"
  class_table :: string
  class_primary_key :: string
  class_fields :: "string list"
  class_select :: string
  class_insert :: string
  class_update :: string
  class_delete :: string
  other_attrs :: "(string \<times> attr) list"

datatype py_class = PlainClass string "(string \<times> attr) list" | ModelClass model_class

text \<open>\<open>name or f\<close>, for a field's declared column name \<open>name\<close> (\<open>None\<close> or a
  string) and its attribute name \<open>f\<close>.\<close>

definition name_or :: "string option \<Rightarrow> string \<Rightarrow> string" where
  "name_or name f = (case name of None \<Rightarrow> f | Some n \<Rightarrow> (if n \<noteq> [] then n else f))"

text \<open>A \<open>SET\<close> item of the canned \<open>UPDATE\<close>:
  \<open>'`%s`=?' % (mappings.get(f).name or f)\<close>. \<open>mappings.get(f)\<close> is \<open>None\<close> for a
  missing key, and \<open>None.name\<close> raises.\<close>

definition set_item :: "(string \<times> field) list \<Rightarrow> string \<Rightarrow> py_error + string" where
  "set_item mappings f =
     (case map_of mappings f of
        None \<Rightarrow> Inl (AttributeError ''name'')
      | Some fld \<Rightarrow> Inr (''`'' @ name_or (field_name fld) f @ ''`=?''))"

text \<open>\<open>map(lambda f: ..., fields)\<close>, as \<open>', '.join\<close> consumes it.\<close>

fun set_items :: "(string \<times> field) list \<Rightarrow> string list \<Rightarrow> py_error + string list" where
  "set_items mappings [] = Inr []"
| "set_items mappings (f # fs) =
     (case set_item mappings f of
        Inl e \<Rightarrow> Inl e
      | Inr item \<Rightarrow>
          (case set_items mappings fs of
             Inl e \<Rightarrow> Inl e
           | Inr items \<Rightarrow> Inr (item # items)))"

text \<open>\<open>ModelMetaclass.__new__(cls, name, bases, attrs)\<close>; the bases play no part
  in it.\<close>

definition metaclass_new :: "string \<Rightarrow> (string \<times> attr) list \<Rightarrow> py_error + py_class" where
  "metaclass_new name attrs =
     (if name = ''Model'' then Inr (PlainClass name attrs)
      else
        (let tableName =
               (case map_of attrs ''__table__'' of
                  None \<Rightarrow> name
                | Some t \<Rightarrow> (if attr_truthy t then attr_str t else name)) in
         case collect_fields attrs ([], [], None) of
           Inl e \<Rightarrow> Inl e
         | Inr (mappings, fields', primaryKey) \<Rightarrow>
             (if \<not> key_truthy primaryKey then Inl (RuntimeError ''Primary key not found.'')
              else
                (let pk = the primaryKey;
                     rest = filter (\<lambda>(k, v). k \<notin> set (map fst mappings)) attrs;
                     escaped_fields = map (\<lambda>f. ''`'' @ f @ ''`'') fields' in
                 case set_items mappings fields' of
                   Inl e \<Rightarrow> Inl e
                 | Inr items \<Rightarrow>
                     Inr (ModelClass
                       \<lparr>class_name = name,
                        class_mappings = mappings,
                        class_table = tableName,
                        class_primary_key = pk,
                        class_fields = fields',
                        class_select = ''select `'' @ pk @ ''`, '' @ join '', '' escaped_fields
                          @ '' from `'' @ tableName @ ''`'',
                        class_insert = ''insert into `'' @ tableName @ ''` (''
                          @ join '', '' escaped_fields @ '', `'' @ pk @ ''`) values (''
                          @ create_args_string (length escaped_fields + 1) @ '')'',
                        class_update = ''update `'' @ tableName @ ''` set '' @ join '', '' items
                          @ '' where `'' @ pk @ ''`=?'',
                        class_delete = ''delete from `'' @ tableName @ ''` where `'' @ pk
                          @ ''`=?'',
                        other_attrs = rest\<rparr>)))))"

text \<open>What the loop of the metaclass reads off a namespace: the names of the fields
  that have \<open>primary_key\<close> set, the names of the other fields, and the mapping from
  names to fields, each in the order of the namespace.\<close>

fun primary_key_fields :: "(string \<times> attr) list \<Rightarrow> string list" where
  "primary_key_fields [] = []"
| "primary_key_fields ((k, AField v) # rest) =
     (if primary_key v then k # primary_key_fields rest else primary_key_fields rest)"
| "primary_key_fields ((k, _) # rest) = primary_key_fields rest"

fun nonkey_fields :: "(string \<times> attr) list \<Rightarrow> string list" where
  "nonkey_fields [] = []"
| "nonkey_fields ((k, AField v) # rest) =
     (if primary_key v then nonkey_fields rest else k # nonkey_fields rest)"
| "nonkey_fields ((k, _) # rest) = nonkey_fields rest"

fun field_mappings :: "(string \<times> attr) list \<Rightarrow> (string \<times> field) list
    \<Rightarrow> (string \<times> field) list" where
  "field_mappings [] m = m"
| "field_mappings ((k, AField v) # rest) m = field_mappings rest (AList.update k v m)"
| "field_mappings ((k, _) # rest) m = field_mappings rest m"

section \<open>orm.py: model instances\<close>

text \<open>A \<open>Model\<close> instance is a dictionary (its items, in insertion order) of a
  class built by the metaclass.\<close>

record model =
  inst_class :: model_class
  inst_items :: "(string \<times> pyval) list"

text \<open>\<open>cls(**r)\<close>: \<open>Model.__init__\<close> passes the keywords to \<open>dict\<close>.\<close>

definition new_model :: "model_class \<Rightarrow> (string \<times> pyval) list \<Rightarrow> model" where
  "new_model cls kw = \<lparr>inst_class = cls, inst_items = kw\<rparr>"

text \<open>\<open>getattr(self, key, None)\<close>. Python looks the name up on the class and its
  bases first (methods, the metadata, the attributes of \<open>dict\<close>): \<open>class_attr key\<close>
  is what that finds, if anything. Otherwise \<open>Model.__getattr__\<close> reads the item
  \<open>self[key]\<close>, and its \<open>AttributeError\<close> gives the default \<open>None\<close>.\<close>

definition getattr_or_None :: "(string \<Rightarrow> pyval option) \<Rightarrow> model \<Rightarrow> string \<Rightarrow> pyval" where
  "getattr_or_None class_attr self key =
     (case class_attr key of
        Some v \<Rightarrow> v
      | None \<Rightarrow> (case map_of (inst_items self) key of Some v \<Rightarrow> v | None \<Rightarrow> PNone))"

text \<open>\<open>setattr(self, key, value)\<close>: \<open>Model.__setattr__\<close> stores the item.\<close>

definition setattr :: "model \<Rightarrow> string \<Rightarrow> pyval \<Rightarrow> model" where
  "setattr self key v = self\<lparr>inst_items := AList.update key v (inst_items self)\<rparr>"

definition getValue :: "(string \<Rightarrow> pyval option) \<Rightarrow> model \<Rightarrow> string \<Rightarrow> pyval" where
  "getValue class_attr self key = getattr_or_None class_attr self key"

text \<open>\<open>field.default() if callable(field.default) else field.default\<close>.\<close>

fun default_value :: "py_default \<Rightarrow> pyval" where
  "default_value (DefaultValue v) = v"
| "default_value (DefaultCallable v) = v"

text \<open>\<open>Model.getValueOrDefault(self, key)\<close>: the instance after the call, and what
  the call returns or raises.\<close>

definition getValueOrDefault :: "(string \<Rightarrow> pyval option) \<Rightarrow> model \<Rightarrow> string
    \<Rightarrow> model \<times> (py_error + pyval)" where
  "getValueOrDefault class_attr self key =
     (let v = getattr_or_None class_attr self key in
      if v = PNone then
        (case map_of (class_mappings (inst_class self)) key of
           None \<Rightarrow> (self, Inl (KeyError key))
         | Some fld \<Rightarrow>
             (if field_default fld \<noteq> DefaultValue PNone then
                (let v' = default_value (field_default fld) in
                 (setattr self key v', Inr v'))
              else (self, Inr v)))
      else (self, Inr v))"

text \<open>\<open>list(map(self.getValueOrDefault, keys))\<close>: one call after the other, each
  on the instance the one before has left.\<close>

fun map_getValueOrDefault :: "(string \<Rightarrow> pyval option) \<Rightarrow> model \<Rightarrow> string list
    \<Rightarrow> model \<times> (py_error + pyval list)" where
  "map_getValueOrDefault class_attr self [] = (self, Inr [])"
| "map_getValueOrDefault class_attr self (k # ks) =
     (case getValueOrDefault class_attr self k of
        (self', Inl e) \<Rightarrow> (self', Inl e)
      | (self', Inr v) \<Rightarrow>
          (case map_getValueOrDefault class_attr self' ks of
             (self'', Inl e) \<Rightarrow> (self'', Inl e)
           | (self'', Inr vs) \<Rightarrow> (self'', Inr (v # vs))))"

text \<open>\<open>Model.save(self)\<close>: the instance after the call, the trace, and whether the
  call raises.\<close>

definition save :: "driver \<Rightarrow> (string \<Rightarrow> pyval option) \<Rightarrow> model
    \<Rightarrow> model \<times> event list \<times> (py_error + unit)" where
  "save drv class_attr self =
     (case map_getValueOrDefault class_attr self (class_fields (inst_class self)) of
        (self', Inl e) \<Rightarrow> (self', [], Inl e)
      | (self', Inr args) \<Rightarrow>
          (case getValueOrDefault class_attr self' (class_primary_key (inst_class self)) of
             (self'', Inl e) \<Rightarrow> (self'', [], Inl e)
           | (self'', Inr pk) \<Rightarrow>
               (case execute drv (class_insert (inst_class self)) (Some (args @ [pk])) True of
                  (tr, Inl e) \<Rightarrow> (self'', tr, Inl e)
                | (tr, Inr rows) \<Rightarrow>
                    (self'',
                     tr @ (if rows \<noteq> 1
                           then [LogWarning ''failed to insert record: affected rows: '' rows]
                           else []),
                     Inr ()))))"

text \<open>The truth value of \<open>where\<close> and of \<open>orderBy\<close>: \<open>None\<close> or a string.\<close>

fun str_truthy :: "string option \<Rightarrow> bool" where
  "str_truthy None = False"
| "str_truthy (Some s) = (s \<noteq> [])"

text \<open>\<open>Model.findAll(cls, where=None, args=None, **kw)\<close>, with \<open>orderBy\<close> and
  \<open>limit\<close> for \<open>kw.get('orderBy', None)\<close> and \<open>kw.get('limit', None)\<close>. \<open>args\<close> is
  the caller's list, or \<open>None\<close>; the list is changed in place, so the call gives
  back the caller's list as it is afterwards (\<open>None\<close> when the caller passed none and
  the list is the call's own), then the trace and what the call returns or raises.\<close>

definition run_select :: "driver \<Rightarrow> model_class \<Rightarrow> pyval list option \<Rightarrow> string list
    \<Rightarrow> pyval list \<Rightarrow> pyval list option \<times> event list \<times> (py_error + model list)" where
  "run_select drv cls args sql args' =
     (case select drv (join '' '' sql) (Some args') None of
        (tr, Inl e) \<Rightarrow> (map_option (\<lambda>_. args') args, tr, Inl e)
      | (tr, Inr rs) \<Rightarrow> (map_option (\<lambda>_. args') args, tr, Inr (map (new_model cls) rs)))"

definition findAll :: "driver \<Rightarrow> model_class \<Rightarrow> string option \<Rightarrow> pyval list option
    \<Rightarrow> string option \<Rightarrow> pyval
    \<Rightarrow> pyval list option \<times> event list \<times> (py_error + model list)" where
  "findAll drv cls where' args orderBy limit =
     (let sql = [class_select cls]
            @ (if str_truthy where' then [''where'', the where'] else []);
          args' = (case args of None \<Rightarrow> [] | Some xs \<Rightarrow> xs);
          sql = sql @ (if str_truthy orderBy then [''order by'', the orderBy] else []) in
      if limit \<noteq> PNone then
        (if isinstance_int limit then
           run_select drv cls args (sql @ [''limit'', ''?'']) (args' @ [limit])
         else
           (case limit of
              PTuple [a, b] \<Rightarrow>
                run_select drv cls args (sql @ [''limit'', ''?, ?'']) (args' @ [a, b])
            | _ \<Rightarrow> (args, [], Inl (InvalidLimit limit))))
      else run_select drv cls args sql args')"

text \<open>The pieces of the statement that \<open>findAll\<close> has collected in \<open>sql\<close> when it
  comes to \<open>limit\<close>.\<close>

definition sql_before_limit :: "model_class \<Rightarrow> string option \<Rightarrow> string option \<Rightarrow> string list" where
  "sql_before_limit cls where' orderBy =
     ([class_select cls] @ (if str_truthy where' then [''where'', the where'] else []))
       @ (if str_truthy orderBy then [''order by'', the orderBy] else [])"

section \<open>coroweb.py: the request handler\<close>

text \<open>A function's signature, as \<open>inspect.signature(fn).parameters.items()\<close> gives
  it: the parameters in order, each with its kind and whether it has a default
  (\<open>param.default\<close> is not \<open>inspect.Parameter.empty\<close>).\<close>

datatype kind =
    POSITIONAL_ONLY
  | POSITIONAL_OR_KEYWORD
  | VAR_POSITIONAL
  | KEYWORD_ONLY
  | VAR_KEYWORD

record parameter =
  param_kind :: kind
  has_default :: bool

type_synonym signature = "(string \<times> parameter) list"

definition get_required_kw_args :: "signature \<Rightarrow> string list" where
  "get_required_kw_args params =
     map fst (filter (\<lambda>(name, param). param_kind param = KEYWORD_ONLY \<and> \<not> has_default param)
       params)"

definition get_named_kw_args :: "signature \<Rightarrow> string list" where
  "get_named_kw_args params =
     map fst (filter (\<lambda>(name, param). param_kind param = KEYWORD_ONLY) params)"

definition has_named_kw_args :: "signature \<Rightarrow> bool" where
  "has_named_kw_args params = list_ex (\<lambda>(name, param). param_kind param = KEYWORD_ONLY) params"

definition has_var_kw_arg :: "signature \<Rightarrow> bool" where
  "has_var_kw_arg params = list_ex (\<lambda>(name, param). param_kind param = VAR_KEYWORD) params"

text \<open>The loop of \<open>has_request_arg\<close> on the flag \<open>found\<close>. The message of its
  \<open>ValueError\<close> ends with the function's name and signature, left out here.\<close>

fun has_request_arg_loop :: "signature \<Rightarrow> bool \<Rightarrow> py_error + bool" where
  "has_request_arg_loop [] found = Inr found"
| "has_request_arg_loop ((name, param) # rest) found =
     (if name = ''request'' then has_request_arg_loop rest True
      else if found \<and> (param_kind param \<noteq> VAR_POSITIONAL \<and> param_kind param \<noteq> KEYWORD_ONLY
                       \<and> param_kind param \<noteq> VAR_KEYWORD) then
        Inl (ValueError ''request parameter must be the last named parameter in function: '')
      else has_request_arg_loop rest found)"

definition has_request_arg :: "signature \<Rightarrow> py_error + bool" where
  "has_request_arg params = has_request_arg_loop params False"

text \<open>An incoming request, as the handler reads it: \<open>req_method\<close> is
  \<open>request.method\<close>, \<open>json_r\<close> and \<open>post_r\<close> are
  what \<open>await request.json()\<close> and \<open>dict(**(await request.post()))\<close> give or raise,
  \<open>user\<close> is \<open>request.__user__\<close>.\<close>

record request =
  req_method :: string
  content_type :: string
  json_r :: "py_error + pyval"
  post_r :: "py_error + (string \<times> pyval) list"
  query_string :: string
  match_info :: "(string \<times> pyval) list"
  user :: pyval

text \<open>A keyword argument of the call to the view function: a value, or the request
  object itself.\<close>

datatype arg = Val pyval | Req request

type_synonym kwargs = "(string \<times> arg) list"

text \<open>What a call of the view function does: it returns a value, raises an
  \<open>APIError\<close> (with its \<open>error\<close>, \<open>data\<close> and \<open>message\<close>) or raises something
  else.\<close>

datatype func_result = Returns pyval | RaisesAPIError pyval pyval pyval | Raises py_error

record request_handler =
  self_func :: "kwargs \<Rightarrow> func_result"
  self_has_request_arg :: bool
  self_has_var_kw_arg :: bool
  self_has_named_kw_args :: bool
  self_named_kw_args :: "string list"
  self_required_kw_args :: "string list"

text \<open>\<open>RequestHandler.__init__(self, app, fn)\<close>, with the function given by its
  signature and its behaviour.\<close>

definition RequestHandler :: "signature \<Rightarrow> (kwargs \<Rightarrow> func_result) \<Rightarrow> py_error + request_handler" where
  "RequestHandler params fn =
     (case has_request_arg params of
        Inl e \<Rightarrow> Inl e
      | Inr found \<Rightarrow>
          Inr \<lparr>self_func = fn,
               self_has_request_arg = found,
               self_has_var_kw_arg = has_var_kw_arg params,
               self_has_named_kw_args = has_named_kw_args params,
               self_named_kw_args = get_named_kw_args params,
               self_required_kw_args = get_required_kw_args params\<rparr>)"

text \<open>\<open>str.lower()\<close> on the ASCII letters; the other bytes are left as they are.\<close>

definition lower_char :: "char \<Rightarrow> char" where
  "lower_char c =
     (let n = (of_char c :: nat) in if 65 \<le> n \<and> n \<le> 90 then char_of (n + 32) else c)"

definition lower :: "string \<Rightarrow> string" where
  "lower s = map lower_char s"

text \<open>A step of \<open>__call__\<close> raises, returns a value at once, or goes on.\<close>

datatype 'a flow = Raise py_error | Return pyval | Go 'a

text \<open>The \<open>POST\<close> branch of \<open>RequestHandler.__call__\<close>: the parsed parameters
  \<open>kw\<close>.\<close>

definition post_params :: "request \<Rightarrow> (string \<times> pyval) list option flow" where
  "post_params request =
     (if content_type request = [] then
        Return (PResponse (HTTPBadRequest ''Missing Content-Type.''))
      else
        (let ct = lower (content_type request) in
         if startswith ct ''application/json'' then
           (case json_r request of
              Inl e \<Rightarrow> Raise e
            | Inr (PDict params) \<Rightarrow> Go (Some params)
            | Inr _ \<Rightarrow> Return (PResponse (HTTPBadRequest ''JSON body must be object.'')))
         else if startswith ct ''application/x-www-form-urlencoded''
                 \<or> startswith ct ''multipart/form-data'' then
           (case post_r request of
              Inl e \<Rightarrow> Raise e
            | Inr params \<Rightarrow> Go (Some params))
         else
           Return (PResponse (HTTPBadRequest
             (''Unsupported Content-Type: '' @ content_type request)))))"

text \<open>The loop \<open>for k, v in parse.parse_qs(qs, True).items(): kw[k] = v[0]\<close>.\<close>

fun first_values :: "(string \<times> string list) list \<Rightarrow> (string \<times> pyval) list
    \<Rightarrow> py_error + (string \<times> pyval) list" where
  "first_values [] kw = Inr kw"
| "first_values ((k, []) # rest) kw = Inl IndexError"
| "first_values ((k, v # vs) # rest) kw = first_values rest (AList.update k (PStr v) kw)"

text \<open>The \<open>GET\<close> branch; \<open>parse_qs\<close> is \<open>urllib\<close>'s
  \<open>lambda qs: parse.parse_qs(qs, True)\<close>, which is not part of the repository.\<close>

definition get_params :: "(string \<Rightarrow> (string \<times> string list) list) \<Rightarrow> request
    \<Rightarrow> (string \<times> pyval) list option \<Rightarrow> (string \<times> pyval) list option flow" where
  "get_params parse_qs request kw =
     (let qs = query_string request in
      if qs \<noteq> [] then
        (case first_values (parse_qs qs) [] of
           Inl e \<Rightarrow> Raise e
         | Inr kw' \<Rightarrow> Go (Some kw'))
      else Go kw)"

text \<open>Lines 115 to 154 of \<open>__call__\<close>: \<open>kw\<close> from the body or the query string.\<close>

definition parse_params :: "request_handler \<Rightarrow> (string \<Rightarrow> (string \<times> string list) list)
    \<Rightarrow> request \<Rightarrow> (string \<times> pyval) list option flow" where
  "parse_params self parse_qs request =
     (if self_has_var_kw_arg self \<or> self_has_named_kw_args self then
        (case (if req_method request = ''POST'' then post_params request else Go None) of
           Raise e \<Rightarrow> Raise e
         | Return r \<Rightarrow> Return r
         | Go kw \<Rightarrow>
             (if req_method request = ''GET'' then get_params parse_qs request kw else Go kw))
      else Go None)"

text \<open>The loop \<open>for name in self._named_kw_args: if name in kw: copy[name] =
  kw[name]\<close>.\<close>

fun copy_named :: "string list \<Rightarrow> (string \<times> arg) list \<Rightarrow> kwargs \<Rightarrow> kwargs" where
  "copy_named [] kw copy = copy"
| "copy_named (name # names) kw copy =
     (case map_of kw name of
        Some v \<Rightarrow> copy_named names kw (AList.update name v copy)
      | None \<Rightarrow> copy_named names kw copy)"

text \<open>The loop \<open>for k, v in request.match_info.items(): kw[k] = v\<close> (the warning
  about a name already in \<open>kw\<close> is a log line only).\<close>

fun merge_match_info :: "(string \<times> pyval) list \<Rightarrow> kwargs \<Rightarrow> kwargs" where
  "merge_match_info [] kw = kw"
| "merge_match_info ((k, v) # rest) kw = merge_match_info rest (AList.update k (Val v) kw)"

text \<open>Lines 156 to 180 of \<open>__call__\<close>: the arguments assembled from the parsed
  parameters, the path variables and the request.\<close>

definition assemble :: "request_handler \<Rightarrow> request \<Rightarrow> (string \<times> pyval) list option \<Rightarrow> kwargs" where
  "assemble self request kw =
     (let kw1 =
        (case kw of
           None \<Rightarrow> map (\<lambda>(k, v). (k, Val v)) (match_info request)
         | Some params \<Rightarrow>
             (let kw0 = map (\<lambda>(k, v). (k, Val v)) params;
                  kw0 = (if \<not> self_has_var_kw_arg self \<and> self_has_named_kw_args self
                         then copy_named (self_named_kw_args self) kw0 []
                         else kw0) in
              merge_match_info (match_info request) kw0)) in
      if self_has_request_arg self then AList.update ''request'' (Req request) kw1 else kw1)"

text \<open>Lines 182 to 186: the first required argument that is missing, if any.\<close>

fun missing_required :: "string list \<Rightarrow> kwargs \<Rightarrow> string option" where
  "missing_required [] kw = None"
| "missing_required (name # names) kw =
     (if map_of kw name = None then Some name else missing_required names kw)"

text \<open>\<open>RequestHandler.__call__(self, request)\<close>: the calls of the view function
  it has made (the arguments of each), and what it returns or raises.\<close>

definition handler_call :: "request_handler \<Rightarrow> (string \<Rightarrow> (string \<times> string list) list)
    \<Rightarrow> request \<Rightarrow> kwargs list \<times> (py_error + pyval)" where
  "handler_call self parse_qs request =
     (case parse_params self parse_qs request of
        Raise e \<Rightarrow> ([], Inl e)
      | Return r \<Rightarrow> ([], Inr r)
      | Go kw0 \<Rightarrow>
          (let kw = assemble self request kw0 in
           case missing_required (self_required_kw_args self) kw of
             Some name \<Rightarrow> ([], Inr (PResponse (HTTPBadRequest (''Missing argument: '' @ name))))
           | None \<Rightarrow>
               (case self_func self kw of
                  Returns r \<Rightarrow> ([kw], Inr r)
                | RaisesAPIError err dat msg \<Rightarrow>
                    ([kw], Inr (PDict [(''error'', err), (''data'', dat), (''message'', msg)]))
                | Raises e \<Rightarrow> ([kw], Inl e))))"

section \<open>app.py: response coercion\<close>

text \<open>What \<open>response_factory\<close> takes from outside the repository: Python's
  \<open>str\<close>, \<open>json.dumps(r, ensure_ascii=False, default=...)\<close>, and the template
  engine's \<open>get_template(template).render(**r)\<close>.\<close>

record library =
  str_of :: "pyval \<Rightarrow> string"
  json_dumps :: "(string \<times> pyval) list \<Rightarrow> py_error + string"
  render :: "pyval \<Rightarrow> (string \<times> pyval) list \<Rightarrow> py_error + string"

text \<open>The status test \<open>isinstance(v, int) and v >= 100 and v < 600\<close>.\<close>

definition is_status :: "pyval \<Rightarrow> bool" where
  "is_status v = (isinstance_int v \<and> int_value v \<ge> 100 \<and> int_value v < 600)"

text \<open>The default case at the end of \<open>response\<close>.\<close>

definition default_response :: "library \<Rightarrow> pyval \<Rightarrow> response" where
  "default_response lib r = Response 200 (Body (str_of lib r)) (Some ''text/plain;charset=utf-8'')"

text \<open>The body of \<open>response(request)\<close> in \<open>response_factory\<close>, from the value
  \<open>r\<close> the handler has returned. A response built without a status has aiohttp's
  default, 200.\<close>

definition coerce :: "library \<Rightarrow> request \<Rightarrow> pyval \<Rightarrow> py_error + response" where
  "coerce lib request r =
     (case r of
        PResponse resp \<Rightarrow> Inr resp
      | PBytes b \<Rightarrow> Inr (Response 200 (Body b) (Some ''application/octet-stream''))
      | PStr s \<Rightarrow>
          (if startswith s ''redirect:'' then Inr (HTTPFound (drop 9 s))
           else Inr (Response 200 (Body s) (Some ''text/html;charset=utf-8'')))
      | PDict d \<Rightarrow>
          (let template = (case map_of d ''__template__'' of None \<Rightarrow> PNone | Some t \<Rightarrow> t) in
           if template = PNone then
             (case json_dumps lib d of
                Inl e \<Rightarrow> Inl e
              | Inr body \<Rightarrow> Inr (Response 200 (Body body) (Some ''application/json;charset=utf-8'')))
           else
             (case render lib template (AList.update ''__user__'' (user request) d) of
                Inl e \<Rightarrow> Inl e
              | Inr body \<Rightarrow> Inr (Response 200 (Body body) (Some ''text/html;charset=utf-8''))))
      | _ \<Rightarrow>
          (if is_status r then Inr (Response (int_value r) NoBody None)
           else
             (case r of
                PTuple [status_code, message] \<Rightarrow>
                  (if is_status status_code then
                     Inr (Response (int_value status_code) (Text (str_of lib message)) None)
                   else Inr (default_response lib r))
              | _ \<Rightarrow> Inr (default_response lib r))))"

text \<open>\<open>response(request)\<close>: the handler is called, and its value coerced.\<close>

definition response_factory :: "library \<Rightarrow> (request \<Rightarrow> py_error + pyval) \<Rightarrow> request
    \<Rightarrow> py_error + response" where
  "response_factory lib handler request =
     (case handler request of
        Inl e \<Rightarrow> Inl e
      | Inr r \<Rightarrow> coerce lib request r)"

section \<open>Example inputs\<close>

text \<open>A driver whose every query gives two rows, and one whose every statement
  fails.\<close>

definition two_rows_driver :: driver where
  "two_rows_driver =
     \<lparr>acquire_r = None, begin_r = None,
      run_r = (\<lambda>sql args. Inr \<lparr>cur_rows = [[(''id'', PInt 1)], [(''id'', PInt 2)]], rowcount = 2\<rparr>),
      commit_r = None, rollback_r = None\<rparr>"

definition failing_driver :: driver where
  "failing_driver =
     \<lparr>acquire_r = None, begin_r = None,
      run_r = (\<lambda>sql args. Inl (DriverError ''duplicate entry'')),
      commit_r = None, rollback_r = None\<rparr>"

text \<open>Namespaces of class definitions: a \<open>User\<close> model with the key
  \<open>id\<close>, a field \<open>email\<close> stored in the column \<open>mail\<close>, a field \<open>admin\<close> and a
  method; one with two primary keys; one with none.\<close>

definition user_attrs :: "(string \<times> attr) list" where
  "user_attrs =
     [(''__table__'', AStr ''users''),
      (''id'', AField (StringField None True (DefaultCallable (PStr ''001'')) ''varchar(50)'')),
      (''email'', AField (StringField (Some ''mail'') False (DefaultValue PNone) ''varchar(50)'')),
      (''admin'', AField (BooleanField None (DefaultValue (PBool False)))),
      (''greet'', AObj True ''<function User.greet>'')]"

definition two_keys_attrs :: "(string \<times> attr) list" where
  "two_keys_attrs =
     [(''id'', AField (IntegerField None True (DefaultValue (PInt 0)))),
      (''email'', AField (StringField None True (DefaultValue PNone) ''varchar(50)''))]"

definition no_key_attrs :: "(string \<times> attr) list" where
  "no_key_attrs =
     [(''email'', AField (StringField None False (DefaultValue PNone) ''varchar(50)''))]"

text \<open>The class the metaclass builds from \<open>user_attrs\<close>.\<close>

definition user_class :: model_class where
  "user_class =
     \<lparr>class_name = ''User'',
      class_mappings =
        [(''id'', StringField None True (DefaultCallable (PStr ''001'')) ''varchar(50)''),
         (''email'', StringField (Some ''mail'') False (DefaultValue PNone) ''varchar(50)''),
         (''admin'', BooleanField None (DefaultValue (PBool False)))],
      class_table = ''users'',
      class_primary_key = ''id'',
      class_fields = [''email'', ''admin''],
      class_select = ''select `id`, `email`, `admin` from `users`'',
      class_insert = ''insert into `users` (`email`, `admin`, `id`) values (?, ?, ?)'',
      class_update = ''update `users` set `mail`=?, `admin`=? where `id`=?'',
      class_delete = ''delete from `users` where `id`=?'',
      other_attrs = [(''__table__'', AStr ''users''), (''greet'', AObj True ''<function User.greet>'')]\<rparr>"

text \<open>A library whose \<open>str\<close> prints a string as it is and anything else as
  \<open><object>\<close>; a \<open>POST\<close> request with the JSON body
  \<open>{"name": "x", "extra": "y"}\<close> and the path variable \<open>id=42\<close>, and the same
  request without \<open>name\<close> in its body; the signature \<open>(id, *, name, request)\<close>.\<close>

definition example_library :: library where
  "example_library =
     \<lparr>str_of = (\<lambda>v. case v of PStr s \<Rightarrow> s | _ \<Rightarrow> ''<object>''),
      json_dumps = (\<lambda>d. Inr ''{}''),
      render = (\<lambda>t d. Inr ''<html></html>'')\<rparr>"

definition example_request :: request where
  "example_request =
     \<lparr>req_method = ''POST'', content_type = ''application/json'',
      json_r = Inr (PDict [(''name'', PStr ''x''), (''extra'', PStr ''y'')]),
      post_r = Inr [], query_string = '''',
      match_info = [(''id'', PInt 42)], user = PNone\<rparr>"

definition example_signature :: signature where
  "example_signature =
     [(''id'', \<lparr>param_kind = POSITIONAL_OR_KEYWORD, has_default = False\<rparr>),
      (''name'', \<lparr>param_kind = KEYWORD_ONLY, has_default = False\<rparr>),
      (''request'', \<lparr>param_kind = KEYWORD_ONLY, has_default = False\<rparr>)]"

definition missing_name_request :: request where
  "missing_name_request = example_request\<lparr>json_r := Inr (PDict [(''extra'', PStr ''y'')])\<rparr>"

text \<open>Some of what attribute lookup finds on the class of a \<open>Model\<close> instance and
  its bases before \<open>__getattr__\<close> is asked: the methods of \<open>dict\<close> and of
  \<open>Model\<close>, each a bound method, an object of its own. Then a \<open>User\<close> instance to
  which the caller has assigned \<open>admin = None\<close>.\<close>

definition model_class_attr :: "string \<Rightarrow> pyval option" where
  "model_class_attr =
     map_of
       [(''keys'', PObj 0), (''values'', PObj 1), (''items'', PObj 2), (''get'', PObj 3),
        (''pop'', PObj 4), (''copy'', PObj 5), (''clear'', PObj 6), (''update'', PObj 7),
        (''save'', PObj 8), (''remove'', PObj 9), (''find'', PObj 10),
        (''getValue'', PObj 11), (''getValueOrDefault'', PObj 12)]"

definition admin_user :: model where
  "admin_user = new_model user_class [(''email'', PStr ''a@example.com''), (''admin'', PNone)]"

text \<open>A \<open>Note\<close> model with the key \<open>id\<close>, a field named \<open>values\<close> with the default
  \<open>'none'\<close> and a field \<open>note\<close> whose default is a producer that returns \<open>None\<close>;
  the class the metaclass builds from it; and an instance to which the caller has
  assigned \<open>None\<close> for both fields.\<close>

definition note_attrs :: "(string \<times> attr) list" where
  "note_attrs =
     [(''id'', AField (StringField None True (DefaultCallable (PStr ''001'')) ''varchar(50)'')),
      (''values'', AField (StringField None False (DefaultValue (PStr ''none'')) ''varchar(50)'')),
      (''note'', AField (TextField None (DefaultCallable PNone)))]"

definition note_class :: model_class where
  "note_class =
     \<lparr>class_name = ''Note'',
      class_mappings =
        [(''id'', StringField None True (DefaultCallable (PStr ''001'')) ''varchar(50)''),
         (''values'', StringField None False (DefaultValue (PStr ''none'')) ''varchar(50)''),
         (''note'', TextField None (DefaultCallable PNone))],
      class_table = ''Note'',
      class_primary_key = ''id'',
      class_fields = [''values'', ''note''],
      class_select = ''select `id`, `values`, `note` from `Note`'',
      class_insert = ''insert into `Note` (`values`, `note`, `id`) values (?, ?, ?)'',
      class_update = ''update `Note` set `values`=?, `note`=? where `id`=?'',
      class_delete = ''delete from `Note` where `id`=?'',
      other_attrs = []\<rparr>"

definition empty_note :: model where
  "empty_note = new_model note_class [(''values'', PNone), (''note'', PNone)]"

section \<open>The metaclass\<close>

lemma collect_fields_truthy:
  "key_truthy pk \<Longrightarrow>
   collect_fields attrs (m, fs, pk) =
     (case primary_key_fields attrs of
        [] \<Rightarrow> Inr (field_mappings attrs m, fs @ nonkey_fields attrs, pk)
      | k # ks \<Rightarrow> Inl (RuntimeError (''Duplicate primary key for field: '' @ k)))"
proof (induction attrs m arbitrary: fs rule: field_mappings.induct)
  case (2 k v rest m)
  then show ?case by (cases "primary_key v") (simp_all split: list.splits)
qed (simp_all split: list.splits)

lemma collect_fields_falsy:
  "\<not> key_truthy pk \<Longrightarrow> [] \<notin> set (primary_key_fields attrs) \<Longrightarrow>
   collect_fields attrs (m, fs, pk) =
     (case primary_key_fields attrs of
        [] \<Rightarrow> Inr (field_mappings attrs m, fs @ nonkey_fields attrs, pk)
      | [k] \<Rightarrow> Inr (field_mappings attrs m, fs @ nonkey_fields attrs, Some k)
      | k # k' # ks \<Rightarrow> Inl (RuntimeError (''Duplicate primary key for field: '' @ k')))"
proof (induction attrs m arbitrary: fs rule: field_mappings.induct)
  case (2 k v rest m)
  show ?case
  proof (cases "primary_key v")
    case True
    with "2.prems" have k: "key_truthy (Some k)" by auto
    from collect_fields_truthy [OF k, of rest "AList.update k v m" fs] "2.prems"(1) True
    show ?thesis by (simp split: list.splits)
  next
    case False
    with "2.prems" have rest: "[] \<notin> set (primary_key_fields rest)" by simp
    from "2.IH" [OF "2.prems"(1) rest] False show ?thesis by (simp split: list.splits)
  qed
qed (simp_all split: list.splits)

lemma collect_fields_result:
  "collect_fields attrs (m, fs, pk) = Inr (m', fs', pk') \<Longrightarrow>
   m' = field_mappings attrs m \<and> fs' = fs @ nonkey_fields attrs"
proof (induction attrs m arbitrary: fs pk rule: field_mappings.induct)
  case (2 k v rest m)
  show ?case
  proof (cases "primary_key v")
    case True
    with "2.prems" have "collect_fields rest (AList.update k v m, fs, Some k) = Inr (m', fs', pk')"
      by (simp split: if_splits)
    from "2.IH" [OF this] True show ?thesis by simp
  next
    case False
    with "2.prems" have "collect_fields rest (AList.update k v m, fs @ [k], pk) = Inr (m', fs', pk')"
      by simp
    from "2.IH" [OF this] False show ?thesis by simp
  qed
qed simp_all

lemma field_mappings_mono: "fst ` set m \<subseteq> fst ` set (field_mappings attrs m)"
proof (induction attrs m rule: field_mappings.induct)
  case (2 k v rest m)
  have "fst ` set m \<subseteq> fst ` set (AList.update k v m)" by (auto simp add: dom_update)
  with 2 show ?case by auto
qed simp_all

lemma nonkey_fields_mapped: "set (nonkey_fields attrs) \<subseteq> fst ` set (field_mappings attrs m)"
proof (induction attrs m rule: field_mappings.induct)
  case (2 k v rest m)
  have "k \<in> fst ` set (AList.update k v m)" by (simp add: dom_update)
  with field_mappings_mono [of "AList.update k v m" rest] 2 show ?case by auto
qed simp_all

lemma set_items_mapped:
  "set fs \<subseteq> fst ` set m \<Longrightarrow> \<exists>items. set_items m fs = Inr items"
proof (induction fs)
  case Nil
  then show ?case by simp
next
  case (Cons f fs)
  then obtain fld where "map_of m f = Some fld"
    by (cases "map_of m f") (auto simp add: map_of_eq_None_iff)
  with Cons show ?case by (auto simp add: set_item_def)
qed

lemma set_items_nth:
  "set_items m fs = Inr items \<Longrightarrow>
   length items = length fs \<and> (\<forall>i<length fs. set_item m (fs ! i) = Inr (items ! i))"
proof (induction fs arbitrary: items)
  case Nil
  then show ?case by simp
next
  case (Cons f fs)
  from Cons.prems obtain item rest where
    item: "set_item m f = Inr item" and rest: "set_items m fs = Inr rest"
    and items: "items = item # rest"
    by (auto split: sum.splits)
  from Cons.IH [OF rest] item items show ?case
    by (auto simp add: nth_Cons split: nat.splits)
qed

lemma metaclass_new_succeeds:
  assumes "name \<noteq> ''Model''" and "[] \<notin> set (primary_key_fields attrs)"
  shows "metaclass_new name attrs =
     (case primary_key_fields attrs of
        [] \<Rightarrow> Inl (RuntimeError ''Primary key not found.'')
      | [pk] \<Rightarrow> metaclass_new name attrs
      | pk # k' # ks \<Rightarrow> Inl (RuntimeError (''Duplicate primary key for field: '' @ k')))
    \<and> (length (primary_key_fields attrs) = 1 \<longrightarrow> (\<exists>cls. metaclass_new name attrs = Inr cls))"
proof -
  have c: "collect_fields attrs ([], [], None) =
     (case primary_key_fields attrs of
        [] \<Rightarrow> Inr (field_mappings attrs [], [] @ nonkey_fields attrs, None)
      | [k] \<Rightarrow> Inr (field_mappings attrs [], [] @ nonkey_fields attrs, Some k)
      | k # k' # ks \<Rightarrow> Inl (RuntimeError (''Duplicate primary key for field: '' @ k')))"
    using assms(2) by (intro collect_fields_falsy) simp_all
  obtain items where s: "set_items (field_mappings attrs []) (nonkey_fields attrs) = Inr items"
    using set_items_mapped [OF nonkey_fields_mapped] by blast
  show ?thesis
  proof (cases "primary_key_fields attrs")
    case Nil
    with c assms(1) show ?thesis by (simp add: metaclass_new_def)
  next
    case (Cons pk ks)
    note outer = this
    show ?thesis
    proof (cases ks)
      case Nil
      have "pk \<in> set (primary_key_fields attrs)" using outer by simp
      with assms(2) have pkne: "pk \<noteq> []" by auto
      with c s assms(1) outer Nil show ?thesis by (simp add: metaclass_new_def Let_def)
    next
      case (Cons k' ks')
      with c assms(1) outer show ?thesis by (simp add: metaclass_new_def)
    qed
  qed
qed

text \<open>
  C1: for a class other than \<open>Model\<close>, where the attribute names of the primary-key
  fields are identifiers and so not empty, \<open>ModelMetaclass.__new__\<close> returns a class
  exactly when one declared field has \<open>primary_key\<close> set. With none it raises
  \<open>RuntimeError('Primary key not found.')\<close>, with two or more it raises
  \<open>RuntimeError('Duplicate primary key for field: ...')\<close> at the second one. An
  instance needs the class, so neither error leaves anything to instantiate.
\<close>

theorem metaclass_primary_key:
  assumes "name \<noteq> ''Model''" and "[] \<notin> set (primary_key_fields attrs)"
  shows "((\<exists>cls. metaclass_new name attrs = Inr cls) \<longleftrightarrow> length (primary_key_fields attrs) = 1)
    \<and> (primary_key_fields attrs = [] \<longrightarrow>
          metaclass_new name attrs = Inl (RuntimeError ''Primary key not found.''))
    \<and> (2 \<le> length (primary_key_fields attrs) \<longrightarrow>
          metaclass_new name attrs =
            Inl (RuntimeError (''Duplicate primary key for field: '' @ primary_key_fields attrs ! 1)))"
proof (cases "primary_key_fields attrs")
  case Nil
  with metaclass_new_succeeds [OF assms] show ?thesis by simp
next
  case (Cons pk ks)
  with metaclass_new_succeeds [OF assms] show ?thesis by (cases ks) auto
qed

theorem metaclass_primary_key_witness:
  "(\<exists>cls. metaclass_new ''User'' user_attrs = Inr cls)
   \<and> metaclass_new ''User'' no_key_attrs = Inl (RuntimeError ''Primary key not found.'')
   \<and> metaclass_new ''User'' two_keys_attrs =
       Inl (RuntimeError ''Duplicate primary key for field: email'')"
proof -
  have 1: "primary_key_fields user_attrs = [''id'']"
    by (simp add: user_attrs_def StringField_def BooleanField_def)
  have 2: "primary_key_fields no_key_attrs = []"
    by (simp add: no_key_attrs_def StringField_def)
  have 3: "primary_key_fields two_keys_attrs = [''id'', ''email'']"
    by (simp add: two_keys_attrs_def StringField_def IntegerField_def)
  have n: "[] \<notin> set (primary_key_fields user_attrs)"
    "[] \<notin> set (primary_key_fields no_key_attrs)"
    "[] \<notin> set (primary_key_fields two_keys_attrs)"
    by (simp_all add: 1 2 3)
  have m: "''User'' \<noteq> ''Model''" by simp
  from metaclass_primary_key [OF m n(1)] metaclass_primary_key [OF m n(2)]
    metaclass_primary_key [OF m n(3)]
  show ?thesis by (simp add: 1 2 3)
qed

section \<open>The data-access functions\<close>

text \<open>
  C4: \<open>execute\<close> with \<open>autocommit\<close> false, on a connection the pool has leased.
  The trace starts with the lease and \<open>conn.begin()\<close> and ends with the release of
  the connection, which happens once and in every case. When \<open>begin\<close> succeeds the
  statement runs after it. When the statement succeeds and \<open>commit\<close> does, the
  transaction is committed and the affected-row count returned. When the statement
  raises, or \<open>commit\<close> does, the transaction is rolled back and the call raises:
  the same exception, unless \<open>rollback\<close> itself raised another.
\<close>

theorem execute_transaction:
  assumes "acquire_r drv = None"
  shows "(\<exists>mid. fst (execute drv sql args False) = [LogSQL sql, Acquire, Begin] @ mid @ [Release]
            \<and> Release \<notin> set mid \<and> Begin \<notin> set mid)
    \<and> (begin_r drv = None \<longrightarrow>
          (\<exists>post. fst (execute drv sql args False) =
             [LogSQL sql, Acquire, Begin, CursorOpen,
              Execute (replace_placeholders sql) (args_or_empty args), CursorClose] @ post))
    \<and> (begin_r drv = None
          \<and> run_r drv (replace_placeholders sql) (args_or_empty args) = Inr cur
          \<and> commit_r drv = None \<longrightarrow>
          execute drv sql args False =
            ([LogSQL sql, Acquire, Begin, CursorOpen,
              Execute (replace_placeholders sql) (args_or_empty args), CursorClose,
              Commit, Release], Inr (rowcount cur)))
    \<and> (begin_r drv = None
          \<and> run_r drv (replace_placeholders sql) (args_or_empty args) = Inl e \<longrightarrow>
          fst (execute drv sql args False) =
            [LogSQL sql, Acquire, Begin, CursorOpen,
             Execute (replace_placeholders sql) (args_or_empty args), CursorClose,
             Rollback, Release]
          \<and> snd (execute drv sql args False) =
              Inl (case rollback_r drv of None \<Rightarrow> e | Some e' \<Rightarrow> e'))
    \<and> (begin_r drv = None
          \<and> run_r drv (replace_placeholders sql) (args_or_empty args) = Inr cur
          \<and> commit_r drv = Some e \<longrightarrow>
          fst (execute drv sql args False) =
            [LogSQL sql, Acquire, Begin, CursorOpen,
             Execute (replace_placeholders sql) (args_or_empty args), CursorClose,
             Commit, Rollback, Release]
          \<and> snd (execute drv sql args False) =
              Inl (case rollback_r drv of None \<Rightarrow> e | Some e' \<Rightarrow> e'))"
  using assms
  by (auto simp add: execute_def on_exception_def Let_def split: option.splits sum.splits)

theorem execute_transaction_witness:
  "execute two_rows_driver ''insert into `t` (`id`) values (?)'' (Some [PInt 1]) False =
     ([LogSQL ''insert into `t` (`id`) values (?)'', Acquire, Begin, CursorOpen,
       Execute ''insert into `t` (`id`) values (%s)'' [PInt 1], CursorClose, Commit, Release],
      Inr 2)
   \<and> execute failing_driver ''insert into `t` (`id`) values (?)'' (Some [PInt 1]) False =
     ([LogSQL ''insert into `t` (`id`) values (?)'', Acquire, Begin, CursorOpen,
       Execute ''insert into `t` (`id`) values (%s)'' [PInt 1], CursorClose, Rollback, Release],
      Inl (DriverError ''duplicate entry''))"
proof -
  have ok: "acquire_r two_rows_driver = None" "begin_r two_rows_driver = None"
    "commit_r two_rows_driver = None"
    "run_r two_rows_driver (replace_placeholders ''insert into `t` (`id`) values (?)'')
       (args_or_empty (Some [PInt 1])) = Inr \<lparr>cur_rows = [[(''id'', PInt 1)], [(''id'', PInt 2)]], rowcount = 2\<rparr>"
    by (simp_all add: two_rows_driver_def)
  have bad: "acquire_r failing_driver = None" "begin_r failing_driver = None"
    "rollback_r failing_driver = None"
    "run_r failing_driver (replace_placeholders ''insert into `t` (`id`) values (?)'')
       (args_or_empty (Some [PInt 1])) = Inl (DriverError ''duplicate entry'')"
    by (simp_all add: failing_driver_def)
  have q: "replace_placeholders ''insert into `t` (`id`) values (?)'' = ''insert into `t` (`id`) values (%s)''"
    by (simp add: replace_placeholders_def)
  have a: "args_or_empty (Some [PInt 1]) = [PInt 1]"
    by (simp add: args_or_empty_def)
  from execute_transaction [OF ok(1), of "''insert into `t` (`id`) values (?)''" "Some [PInt 1]"
      "\<lparr>cur_rows = [[(''id'', PInt 1)], [(''id'', PInt 2)]], rowcount = 2\<rparr>" "DriverError ''x''"] ok
  have 1: "execute two_rows_driver ''insert into `t` (`id`) values (?)'' (Some [PInt 1]) False =
     ([LogSQL ''insert into `t` (`id`) values (?)'', Acquire, Begin, CursorOpen,
       Execute ''insert into `t` (`id`) values (%s)'' [PInt 1], CursorClose, Commit, Release],
      Inr 2)"
    by (simp add: q a)
  from execute_transaction [OF bad(1), of "''insert into `t` (`id`) values (?)''" "Some [PInt 1]"
      "\<lparr>cur_rows = [], rowcount = 0\<rparr>" "DriverError ''duplicate entry''"] bad
  have 2: "execute failing_driver ''insert into `t` (`id`) values (?)'' (Some [PInt 1]) False =
     ([LogSQL ''insert into `t` (`id`) values (?)'', Acquire, Begin, CursorOpen,
       Execute ''insert into `t` (`id`) values (%s)'' [PInt 1], CursorClose, Rollback, Release],
      Inl (DriverError ''duplicate entry''))"
    by (simp add: q a prod_eq_iff)
  from 1 2 show ?thesis by simp
qed

text \<open>
  C5, as stated, at the limit 0: on a result of two rows \<open>select\<close> with
  \<open>size=0\<close> returns both rows, not at most 0.
\<close>

theorem select_size_zero_counterexample:
  "\<not> (case snd (select two_rows_driver ''select `id` from `t`'' None (Some 0)) of
        Inl e \<Rightarrow> True
      | Inr rs \<Rightarrow> int (length rs) \<le> 0)"
  by (simp add: select_def two_rows_driver_def fetch_def fetchall_def)

text \<open>
  C5, amended: when the connection is leased and the query runs, \<open>select\<close> returns
  all rows of the result when no \<open>size\<close> is given and when \<open>size\<close> is 0, and the
  first \<open>size\<close> rows, so at most \<open>size\<close> rows, when \<open>size\<close> is positive.
\<close>

theorem select_rows:
  assumes "acquire_r drv = None"
    and "run_r drv (replace_placeholders sql) (args_or_empty args) = Inr cur"
  shows "snd (select drv sql args None) = Inr (cur_rows cur)
    \<and> snd (select drv sql args (Some 0)) = Inr (cur_rows cur)
    \<and> (0 < n \<longrightarrow> snd (select drv sql args (Some n)) = Inr (take (nat n) (cur_rows cur))
          \<and> int (length (take (nat n) (cur_rows cur))) \<le> n)"
  using assms by (auto simp add: select_def fetch_def fetchall_def fetchmany_def)

theorem select_rows_witness:
  "snd (select two_rows_driver ''select `id` from `t`'' None None)
      = Inr [[(''id'', PInt 1)], [(''id'', PInt 2)]]
   \<and> snd (select two_rows_driver ''select `id` from `t`'' None (Some 0))
      = Inr [[(''id'', PInt 1)], [(''id'', PInt 2)]]
   \<and> snd (select two_rows_driver ''select `id` from `t`'' None (Some 1))
      = Inr [[(''id'', PInt 1)]]"
  using select_rows [of two_rows_driver "''select `id` from `t`''" None
      "\<lparr>cur_rows = [[(''id'', PInt 1)], [(''id'', PInt 2)]], rowcount = 2\<rparr>" 1]
  by (simp add: two_rows_driver_def)

section \<open>The canned statements\<close>

lemma user_class_built: "metaclass_new ''User'' user_attrs = Inr (ModelClass user_class)"
  by (simp add: metaclass_new_def user_attrs_def user_class_def StringField_def BooleanField_def
      AList.update.simps set_item_def name_or_def create_args_string_def numeral_2_eq_2 Let_def)

text \<open>
  C9: in a class the metaclass has built, take a non-key field (the \<open>i\<close>-th of
  \<open>__fields__\<close>) whose \<open>Field\<close> declares a column name \<open>n\<close>, not empty and not the
  attribute name. The canned \<open>SELECT\<close> and \<open>INSERT\<close> list the backtick-escaped
  attribute names, so their \<open>i\<close>-th column is the attribute name, while the
  \<open>i\<close>-th item of the \<open>SET\<close> clause of the canned \<open>UPDATE\<close> names the column
  \<open>n\<close>: the statements do not address the same column.
\<close>

theorem canned_statements_columns:
  assumes "metaclass_new name attrs = Inr (ModelClass c)"
    and "i < length (class_fields c)"
    and "map_of (class_mappings c) (class_fields c ! i) = Some fld"
    and "field_name fld = Some n" and "n \<noteq> []" and "n \<noteq> class_fields c ! i"
  shows "\<exists>cols items.
      class_select c = ''select `'' @ class_primary_key c @ ''`, '' @ join '', '' cols
        @ '' from `'' @ class_table c @ ''`''
    \<and> class_insert c = ''insert into `'' @ class_table c @ ''` ('' @ join '', '' cols
        @ '', `'' @ class_primary_key c @ ''`) values (''
        @ create_args_string (length cols + 1) @ '')''
    \<and> class_update c = ''update `'' @ class_table c @ ''` set '' @ join '', '' items
        @ '' where `'' @ class_primary_key c @ ''`=?''
    \<and> length cols = length (class_fields c)
    \<and> length items = length (class_fields c)
    \<and> cols ! i = ''`'' @ class_fields c ! i @ ''`''
    \<and> items ! i = ''`'' @ n @ ''`=?''
    \<and> cols ! i \<noteq> ''`'' @ n @ ''`''"
proof -
  from assms(1) obtain items where
    items: "set_items (class_mappings c) (class_fields c) = Inr items"
    and upd: "class_update c = ''update `'' @ class_table c @ ''` set '' @ join '', '' items
        @ '' where `'' @ class_primary_key c @ ''`=?''"
    and sel: "class_select c = ''select `'' @ class_primary_key c @ ''`, ''
        @ join '', '' (map (\<lambda>f. ''`'' @ f @ ''`'') (class_fields c))
        @ '' from `'' @ class_table c @ ''`''"
    and ins: "class_insert c = ''insert into `'' @ class_table c @ ''` (''
        @ join '', '' (map (\<lambda>f. ''`'' @ f @ ''`'') (class_fields c))
        @ '', `'' @ class_primary_key c @ ''`) values (''
        @ create_args_string (length (map (\<lambda>f. ''`'' @ f @ ''`'') (class_fields c)) + 1) @ '')''"
    by (auto simp add: metaclass_new_def Let_def split: if_splits sum.splits prod.splits)
  from set_items_nth [OF items] assms(2)
  have len: "length items = length (class_fields c)"
    and it: "set_item (class_mappings c) (class_fields c ! i) = Inr (items ! i)"
    by auto
  from it assms(3-5) have item: "items ! i = ''`'' @ n @ ''`=?''"
    by (simp add: set_item_def name_or_def)
  let ?cols = "map (\<lambda>f. ''`'' @ f @ ''`'') (class_fields c)"
  have "?cols ! i = ''`'' @ class_fields c ! i @ ''`''" using assms(2) by simp
  moreover have "?cols ! i \<noteq> ''`'' @ n @ ''`''" using assms(2,6) by simp
  ultimately show ?thesis using sel ins upd len item
    by (intro exI [of _ ?cols] exI [of _ items]) simp
qed

theorem canned_statements_columns_witness:
  "\<exists>cols items.
      class_select user_class = ''select `id`, '' @ join '', '' cols @ '' from `users`''
    \<and> class_insert user_class = ''insert into `users` ('' @ join '', '' cols
        @ '', `id`) values ('' @ create_args_string (length cols + 1) @ '')''
    \<and> class_update user_class = ''update `users` set '' @ join '', '' items @ '' where `id`=?''
    \<and> length cols = 2 \<and> length items = 2
    \<and> cols ! 0 = ''`email`'' \<and> items ! 0 = ''`mail`=?'' \<and> cols ! 0 \<noteq> ''`mail`''"
proof -
  have "0 < length (class_fields user_class)"
    "map_of (class_mappings user_class) (class_fields user_class ! 0)
       = Some (StringField (Some ''mail'') False (DefaultValue PNone) ''varchar(50)'')"
    "field_name (StringField (Some ''mail'') False (DefaultValue PNone) ''varchar(50)'') = Some ''mail''"
    "''mail'' \<noteq> []" "''mail'' \<noteq> class_fields user_class ! 0"
    by (simp_all add: user_class_def StringField_def)
  from canned_statements_columns [OF user_class_built this]
  obtain cols items where
    "class_select user_class = ''select `'' @ class_primary_key user_class @ ''`, ''
       @ join '', '' cols @ '' from `'' @ class_table user_class @ ''`''"
    "class_insert user_class = ''insert into `'' @ class_table user_class @ ''` (''
       @ join '', '' cols @ '', `'' @ class_primary_key user_class @ ''`) values (''
       @ create_args_string (length cols + 1) @ '')''"
    "class_update user_class = ''update `'' @ class_table user_class @ ''` set ''
       @ join '', '' items @ '' where `'' @ class_primary_key user_class @ ''`=?''"
    "length cols = length (class_fields user_class)"
    "length items = length (class_fields user_class)"
    "cols ! 0 = ''`'' @ class_fields user_class ! 0 @ ''`''"
    "items ! 0 = ''`mail`=?''"
    "cols ! 0 \<noteq> ''`mail`''"
    by auto
  then show ?thesis
    by (intro exI [of _ cols] exI [of _ items]) (simp add: user_class_def)
qed

section \<open>Queries with a limit\<close>

lemma join_snoc: "xs \<noteq> [] \<Longrightarrow> join sep (xs @ [x]) = join sep xs @ sep @ x"
  by (induction sep xs rule: join.induct) simp_all

lemma join_limit: "xs \<noteq> [] \<Longrightarrow> join '' '' (xs @ [''limit'', y]) = join '' '' xs @ '' limit '' @ y"
  using join_snoc [of "xs @ [''limit'']" "'' ''" y] join_snoc [of xs "'' ''" "''limit''"]
  by simp

lemma sql_before_limit_nonempty: "sql_before_limit cls where' orderBy \<noteq> []"
  by (simp add: sql_before_limit_def)

lemma findAll_no_limit:
  "findAll drv cls where' args orderBy PNone =
     run_select drv cls args (sql_before_limit cls where' orderBy) (args_or_empty args)"
  by (simp add: findAll_def sql_before_limit_def args_or_empty_def Let_def)

lemma findAll_int:
  "isinstance_int limit \<Longrightarrow>
   findAll drv cls where' args orderBy limit =
     run_select drv cls args (sql_before_limit cls where' orderBy @ [''limit'', ''?''])
       (args_or_empty args @ [limit])"
  by (cases limit) (simp_all add: findAll_def sql_before_limit_def args_or_empty_def Let_def)

lemma findAll_pair:
  "findAll drv cls where' args orderBy (PTuple [a, b]) =
     run_select drv cls args (sql_before_limit cls where' orderBy @ [''limit'', ''?, ?''])
       (args_or_empty args @ [a, b])"
  by (simp add: findAll_def sql_before_limit_def args_or_empty_def Let_def)

lemma findAll_invalid:
  "limit \<noteq> PNone \<Longrightarrow> \<not> isinstance_int limit \<Longrightarrow> (\<And>a b. limit \<noteq> PTuple [a, b]) \<Longrightarrow>
   findAll drv cls where' args orderBy limit = (args, [], Inl (InvalidLimit limit))"
  by (cases limit) (auto simp add: findAll_def Let_def split: list.splits)

lemma run_select_trace:
  "\<exists>rest. fst (snd (run_select drv cls args sql args')) = LogSQL (join '' '' sql) # rest"
  by (simp add: run_select_def select_def Let_def split: option.splits sum.splits prod.splits)

lemma run_select_execute:
  "acquire_r drv = None \<Longrightarrow>
   \<exists>rest. fst (snd (run_select drv cls args sql args')) =
     [LogSQL (join '' '' sql), Acquire, CursorOpen,
      Execute (replace_placeholders (join '' '' sql)) args'] @ rest"
  by (simp add: run_select_def select_def Let_def args_or_empty_def
      split: option.splits sum.splits prod.splits)

lemma run_select_args:
  "fst (run_select drv cls args sql args') = map_option (\<lambda>_. args') args"
  by (simp add: run_select_def split: prod.splits sum.splits)

text \<open>
  C2: let \<open>sql\<close> be the statement \<open>findAll\<close> builds without a limit (the one it
  logs). With an \<open>int\<close> as \<open>limit\<close> the statement built is \<open>sql\<close> followed by
  \<open>limit ?\<close>, and on a leased connection it is executed with the limit as the last
  parameter. With a pair \<open>(offset, count)\<close> the statement is \<open>sql\<close> followed by
  \<open>limit ?, ?\<close>, executed with the offset and the count as the last two
  parameters. With any other value that is not \<open>None\<close>, \<open>findAll\<close> raises the
  \<open>ValueError\<close> for an invalid limit and the trace is empty: no query has run.
\<close>

theorem findAll_limit:
  "\<exists>sql. (\<exists>rest. fst (snd (findAll drv cls where' args orderBy PNone)) = LogSQL sql # rest)
    \<and> (isinstance_int limit \<longrightarrow>
          (\<exists>rest. fst (snd (findAll drv cls where' args orderBy limit)) =
             LogSQL (sql @ '' limit ?'') # rest)
          \<and> (acquire_r drv = None \<longrightarrow>
               (\<exists>rest. fst (snd (findAll drv cls where' args orderBy limit)) =
                  [LogSQL (sql @ '' limit ?''), Acquire, CursorOpen,
                   Execute (replace_placeholders (sql @ '' limit ?''))
                     (args_or_empty args @ [limit])] @ rest)))
    \<and> (limit = PTuple [offset, count] \<longrightarrow>
          (\<exists>rest. fst (snd (findAll drv cls where' args orderBy limit)) =
             LogSQL (sql @ '' limit ?, ?'') # rest)
          \<and> (acquire_r drv = None \<longrightarrow>
               (\<exists>rest. fst (snd (findAll drv cls where' args orderBy limit)) =
                  [LogSQL (sql @ '' limit ?, ?''), Acquire, CursorOpen,
                   Execute (replace_placeholders (sql @ '' limit ?, ?''))
                     (args_or_empty args @ [offset, count])] @ rest)))
    \<and> (limit \<noteq> PNone \<and> \<not> isinstance_int limit \<and> (\<forall>a b. limit \<noteq> PTuple [a, b]) \<longrightarrow>
          findAll drv cls where' args orderBy limit = (args, [], Inl (InvalidLimit limit)))"
proof -
  let ?base = "sql_before_limit cls where' orderBy"
  let ?sql = "join '' '' ?base"
  have n: "?base \<noteq> []" by (rule sql_before_limit_nonempty)
  have j1: "join '' '' (?base @ [''limit'', ''?'']) = ?sql @ '' limit ?''"
    using join_limit [OF n, of "''?''"] by simp
  have j2: "join '' '' (?base @ [''limit'', ''?, ?'']) = ?sql @ '' limit ?, ?''"
    using join_limit [OF n, of "''?, ?''"] by simp
  have 0: "\<exists>rest. fst (snd (findAll drv cls where' args orderBy PNone)) = LogSQL ?sql # rest"
    unfolding findAll_no_limit by (rule run_select_trace)
  have 1: "\<exists>rest. fst (snd (findAll drv cls where' args orderBy limit)) =
             LogSQL (?sql @ '' limit ?'') # rest" if "isinstance_int limit"
    unfolding findAll_int [OF that] using run_select_trace [of drv cls args "?base @ [''limit'', ''?'']"]
    unfolding j1 by simp
  have 2: "\<exists>rest. fst (snd (findAll drv cls where' args orderBy limit)) =
                  [LogSQL (?sql @ '' limit ?''), Acquire, CursorOpen,
                   Execute (replace_placeholders (?sql @ '' limit ?''))
                     (args_or_empty args @ [limit])] @ rest"
    if "isinstance_int limit" "acquire_r drv = None"
    unfolding findAll_int [OF that(1)]
    using run_select_execute [OF that(2), of cls args "?base @ [''limit'', ''?'']"]
    unfolding j1 by simp
  have 3: "\<exists>rest. fst (snd (findAll drv cls where' args orderBy limit)) =
             LogSQL (?sql @ '' limit ?, ?'') # rest" if "limit = PTuple [offset, count]"
    unfolding that findAll_pair
    using run_select_trace [of drv cls args "?base @ [''limit'', ''?, ?'']"]
    unfolding j2 by simp
  have 4: "\<exists>rest. fst (snd (findAll drv cls where' args orderBy limit)) =
                  [LogSQL (?sql @ '' limit ?, ?''), Acquire, CursorOpen,
                   Execute (replace_placeholders (?sql @ '' limit ?, ?''))
                     (args_or_empty args @ [offset, count])] @ rest"
    if "limit = PTuple [offset, count]" "acquire_r drv = None"
    unfolding that(1) findAll_pair
    using run_select_execute [OF that(2), of cls args "?base @ [''limit'', ''?, ?'']"]
    unfolding j2 by simp
  have 5: "findAll drv cls where' args orderBy limit = (args, [], Inl (InvalidLimit limit))"
    if "limit \<noteq> PNone" "\<not> isinstance_int limit" "\<forall>a b. limit \<noteq> PTuple [a, b]"
    using that by (intro findAll_invalid) auto
  from 0 1 2 3 4 5 show ?thesis by (intro exI [of _ ?sql]) blast
qed

theorem findAll_limit_witness:
  "(\<exists>rest. fst (snd (findAll two_rows_driver user_class None None None (PInt 5))) =
      [LogSQL ''select `id`, `email`, `admin` from `users` limit ?'', Acquire, CursorOpen,
       Execute (replace_placeholders ''select `id`, `email`, `admin` from `users` limit ?'')
         [PInt 5]] @ rest)
   \<and> (\<exists>rest. fst (snd (findAll two_rows_driver user_class None None None
        (PTuple [PInt 10, PInt 5]))) =
      [LogSQL ''select `id`, `email`, `admin` from `users` limit ?, ?'', Acquire, CursorOpen,
       Execute (replace_placeholders ''select `id`, `email`, `admin` from `users` limit ?, ?'')
         [PInt 10, PInt 5]] @ rest)
   \<and> findAll two_rows_driver user_class None None None (PStr ''x'') =
       (None, [], Inl (InvalidLimit (PStr ''x'')))"
proof -
  have a: "acquire_r two_rows_driver = None" by (simp add: two_rows_driver_def)
  have base: "fst (snd (findAll two_rows_driver user_class None None None PNone)) =
      [LogSQL ''select `id`, `email`, `admin` from `users`'', Acquire, CursorOpen,
       Execute ''select `id`, `email`, `admin` from `users`'' [], FetchAll, CursorClose,
       LogRows 2, Release]"
    by (simp add: findAll_def run_select_def select_def two_rows_driver_def user_class_def
        fetch_def fetchall_def replace_placeholders_def args_or_empty_def)
  from findAll_limit [of two_rows_driver user_class None None None "PInt 5" "PInt 10" "PInt 5"]
  have 1: "\<exists>rest. fst (snd (findAll two_rows_driver user_class None None None (PInt 5))) =
      [LogSQL ''select `id`, `email`, `admin` from `users` limit ?'', Acquire, CursorOpen,
       Execute (replace_placeholders ''select `id`, `email`, `admin` from `users` limit ?'')
         [PInt 5]] @ rest"
    unfolding base by (auto simp add: a args_or_empty_def)
  from findAll_limit [of two_rows_driver user_class None None None "PTuple [PInt 10, PInt 5]"
      "PInt 10" "PInt 5"]
  have 2: "\<exists>rest. fst (snd (findAll two_rows_driver user_class None None None
        (PTuple [PInt 10, PInt 5]))) =
      [LogSQL ''select `id`, `email`, `admin` from `users` limit ?, ?'', Acquire, CursorOpen,
       Execute (replace_placeholders ''select `id`, `email`, `admin` from `users` limit ?, ?'')
         [PInt 10, PInt 5]] @ rest"
    unfolding base by (auto simp add: a args_or_empty_def)
  from findAll_limit [of two_rows_driver user_class None None None "PStr ''x''" "PInt 10" "PInt 5"]
  have 3: "findAll two_rows_driver user_class None None None (PStr ''x'') =
       (None, [], Inl (InvalidLimit (PStr ''x'')))"
    by auto
  from 1 2 3 show ?thesis by blast
qed

text \<open>
  C10: when the caller passes a list as \<open>args\<close> and \<open>limit\<close> is an \<open>int\<close> or a
  pair, the caller's list afterwards is the one passed in with the limit, or with
  the two values of the pair, at its end, so it is longer; this holds whatever the
  query does, and on a leased connection the query is executed with the list already
  extended.
\<close>

theorem findAll_mutates_args:
  "(isinstance_int limit \<longrightarrow>
      fst (findAll drv cls where' (Some xs) orderBy limit) = Some (xs @ [limit])
      \<and> (acquire_r drv = None \<longrightarrow>
           (\<exists>sql. Execute sql (xs @ [limit])
              \<in> set (fst (snd (findAll drv cls where' (Some xs) orderBy limit))))))
   \<and> (limit = PTuple [a, b] \<longrightarrow>
      fst (findAll drv cls where' (Some xs) orderBy limit) = Some (xs @ [a, b])
      \<and> (acquire_r drv = None \<longrightarrow>
           (\<exists>sql. Execute sql (xs @ [a, b])
              \<in> set (fst (snd (findAll drv cls where' (Some xs) orderBy limit))))))
   \<and> (isinstance_int limit \<or> limit = PTuple [a, b] \<longrightarrow>
      (\<exists>ys. fst (findAll drv cls where' (Some xs) orderBy limit) = Some ys
         \<and> length xs < length ys \<and> take (length xs) ys = xs))"
proof -
  let ?base = "sql_before_limit cls where' orderBy"
  have 1: "fst (findAll drv cls where' (Some xs) orderBy limit) = Some (xs @ [limit])"
    if "isinstance_int limit"
    unfolding findAll_int [OF that] run_select_args by (simp add: args_or_empty_def)
  have 2: "\<exists>sql. Execute sql (xs @ [limit])
              \<in> set (fst (snd (findAll drv cls where' (Some xs) orderBy limit)))"
    if "isinstance_int limit" "acquire_r drv = None"
    unfolding findAll_int [OF that(1)]
    using run_select_execute [OF that(2), of cls "Some xs" "?base @ [''limit'', ''?'']" "xs @ [limit]"]
    by (auto simp add: args_or_empty_def)
  have 3: "fst (findAll drv cls where' (Some xs) orderBy limit) = Some (xs @ [a, b])"
    if "limit = PTuple [a, b]"
    unfolding that findAll_pair run_select_args by (simp add: args_or_empty_def)
  have 4: "\<exists>sql. Execute sql (xs @ [a, b])
              \<in> set (fst (snd (findAll drv cls where' (Some xs) orderBy limit)))"
    if "limit = PTuple [a, b]" "acquire_r drv = None"
    unfolding that(1) findAll_pair
    using run_select_execute [OF that(2), of cls "Some xs" "?base @ [''limit'', ''?, ?'']" "xs @ [a, b]"]
    by (auto simp add: args_or_empty_def)
  from 1 2 3 4 show ?thesis by auto
qed

theorem findAll_mutates_args_witness:
  "fst (findAll failing_driver user_class (Some ''admin=?'') (Some [PBool True]) None (PInt 5))
     = Some [PBool True, PInt 5]
   \<and> fst (findAll two_rows_driver user_class (Some ''admin=?'') (Some [PBool True]) None
       (PTuple [PInt 10, PInt 5])) = Some [PBool True, PInt 10, PInt 5]"
  using findAll_mutates_args [of "PInt 5" failing_driver user_class "Some ''admin=?''"
      "[PBool True]" None "PInt 10" "PInt 5"]
    findAll_mutates_args [of "PTuple [PInt 10, PInt 5]" two_rows_driver user_class
      "Some ''admin=?''" "[PBool True]" None "PInt 10" "PInt 5"]
  by simp

section \<open>Response coercion\<close>

text \<open>
  C6, as stated, at a list: the handler's value \<open>[404, 'Not Found']\<close>, a sequence of
  length two whose first element is an integer in the range, becomes the plain-text
  response of the default case, not a response with status 404.
\<close>

theorem coerce_list_counterexample:
  "coerce example_library example_request (PList [PInt 404, PStr ''Not Found'']) =
     Inr (Response 200 (Body ''<object>'') (Some ''text/plain;charset=utf-8''))
   \<and> coerce example_library example_request (PList [PInt 404, PStr ''Not Found'']) \<noteq>
     Inr (Response 404 (Text ''Not Found'') None)"
  by (simp add: coerce_def is_status_def default_response_def example_library_def)

text \<open>
  C6, amended: a tuple of two elements whose first element is an \<open>int\<close> in
  \<open>[100, 600)\<close> becomes a response with that status and the text \<open>str(message)\<close>;
  a tuple of two elements whose first element is not, and a list of two elements
  whatever its first element, become the plain-text response of \<open>str\<close> of the
  value.
\<close>

theorem coerce_pair:
  "(is_status status_code \<longrightarrow>
      coerce lib request (PTuple [status_code, message]) =
        Inr (Response (int_value status_code) (Text (str_of lib message)) None))
   \<and> (\<not> is_status status_code \<longrightarrow>
      coerce lib request (PTuple [status_code, message]) =
        Inr (Response 200 (Body (str_of lib (PTuple [status_code, message])))
               (Some ''text/plain;charset=utf-8'')))
   \<and> coerce lib request (PList [status_code, message]) =
        Inr (Response 200 (Body (str_of lib (PList [status_code, message])))
               (Some ''text/plain;charset=utf-8''))"
  by (simp add: coerce_def is_status_def default_response_def)

theorem coerce_pair_witness:
  "coerce example_library example_request (PTuple [PInt 404, PStr ''Not Found'']) =
     Inr (Response 404 (Text ''Not Found'') None)
   \<and> coerce example_library example_request (PTuple [PInt 99, PStr ''Not Found'']) =
     Inr (Response 200 (Body ''<object>'') (Some ''text/plain;charset=utf-8''))"
  using coerce_pair [of "PInt 404" example_library example_request "PStr ''Not Found''"]
    coerce_pair [of "PInt 99" example_library example_request "PStr ''Not Found''"]
  by (simp add: is_status_def example_library_def)

section \<open>The request handler\<close>

lemma example_handler:
  "RequestHandler example_signature fn =
     Inr \<lparr>self_func = fn, self_has_request_arg = True, self_has_var_kw_arg = False,
          self_has_named_kw_args = True, self_named_kw_args = [''name'', ''request''],
          self_required_kw_args = [''name'', ''request'']\<rparr>"
  by (simp add: RequestHandler_def example_signature_def has_request_arg_def
      has_var_kw_arg_def has_named_kw_args_def get_named_kw_args_def get_required_kw_args_def)

lemma lower_json: "lower ''application/json'' = ''application/json''"
  by (simp add: lower_def lower_char_def)

text \<open>
  C3: for a function declared \<open>(id, *, name, request)\<close>, whatever it does, the
  handler is built, and on a \<open>POST\<close> request with content type
  \<open>application/json\<close>, body \<open>{"name": "x", "extra": "y"}\<close> and path variable
  \<open>id=42\<close> it calls the function once, with exactly the arguments \<open>name="x"\<close>,
  \<open>id=42\<close> and \<open>request\<close>, the request object itself; \<open>extra\<close> is not passed.
\<close>

theorem handler_call_arguments:
  "\<exists>self. RequestHandler
       [(''id'', \<lparr>param_kind = POSITIONAL_OR_KEYWORD, has_default = False\<rparr>),
        (''name'', \<lparr>param_kind = KEYWORD_ONLY, has_default = False\<rparr>),
        (''request'', \<lparr>param_kind = KEYWORD_ONLY, has_default = False\<rparr>)] fn = Inr self
     \<and> fst (handler_call self parse_qs
          (request\<lparr>req_method := ''POST'', content_type := ''application/json'',
             json_r := Inr (PDict [(''name'', PStr ''x''), (''extra'', PStr ''y'')]),
             match_info := [(''id'', PInt 42)]\<rparr>)) =
         [[(''name'', Val (PStr ''x'')), (''id'', Val (PInt 42)),
           (''request'', Req (request\<lparr>req_method := ''POST'', content_type := ''application/json'',
             json_r := Inr (PDict [(''name'', PStr ''x''), (''extra'', PStr ''y'')]),
             match_info := [(''id'', PInt 42)]\<rparr>))]]"
proof -
  let ?req = "request\<lparr>req_method := ''POST'', content_type := ''application/json'',
             json_r := Inr (PDict [(''name'', PStr ''x''), (''extra'', PStr ''y'')]),
             match_info := [(''id'', PInt 42)]\<rparr>"
  let ?self = "\<lparr>self_func = fn, self_has_request_arg = True, self_has_var_kw_arg = False,
          self_has_named_kw_args = True, self_named_kw_args = [''name'', ''request''],
          self_required_kw_args = [''name'', ''request'']\<rparr>"
  have p: "parse_params ?self parse_qs ?req =
      Go (Some [(''name'', PStr ''x''), (''extra'', PStr ''y'')])"
    by (simp add: parse_params_def post_params_def lower_json startswith_def)
  have a: "assemble ?self ?req (Some [(''name'', PStr ''x''), (''extra'', PStr ''y'')]) =
      [(''name'', Val (PStr ''x'')), (''id'', Val (PInt 42)), (''request'', Req ?req)]"
    by (simp add: assemble_def)
  have "fst (handler_call ?self parse_qs ?req) =
      [[(''name'', Val (PStr ''x'')), (''id'', Val (PInt 42)), (''request'', Req ?req)]]"
    by (simp add: handler_call_def p a Let_def split: func_result.splits)
  with example_handler [of fn] show ?thesis
    unfolding example_signature_def by (intro exI [of _ ?self]) simp
qed

theorem handler_call_arguments_witness:
  "\<exists>self. RequestHandler example_signature (\<lambda>kw. Returns (PStr ''ok'')) = Inr self
     \<and> fst (handler_call self (\<lambda>qs. []) example_request) =
         [[(''name'', Val (PStr ''x'')), (''id'', Val (PInt 42)),
           (''request'', Req example_request)]]"
  using handler_call_arguments [of "\<lambda>kw. Returns (PStr ''ok'')" "\<lambda>qs. []" example_request]
  by (simp add: example_signature_def example_request_def)

lemma missing_required_Some:
  "name \<in> set names \<Longrightarrow> map_of kw name = None \<Longrightarrow>
   \<exists>m. missing_required names kw = Some m \<and> m \<in> set names \<and> map_of kw m = None"
  by (induction names) auto

lemma required_kw_args_iff:
  "name \<in> set (get_required_kw_args params) \<longleftrightarrow>
   (\<exists>param. (name, param) \<in> set params \<and> param_kind param = KEYWORD_ONLY \<and> \<not> has_default param)"
  by (force simp add: get_required_kw_args_def)

text \<open>
  C7: for a handler built from any function, when the arguments have been assembled
  and a keyword-only parameter without default is absent from them, \<open>__call__\<close>
  makes no call of the function and returns the 400 response
  \<open>HTTPBadRequest\<close> whose text is \<open>Missing argument:\<close> followed by the name of such
  an absent parameter.
\<close>

theorem missing_argument_bad_request:
  assumes "RequestHandler params fn = Inr self"
    and "(name, param) \<in> set params" and "param_kind param = KEYWORD_ONLY"
    and "\<not> has_default param"
    and "parse_params self parse_qs request = Go kw"
    and "map_of (assemble self request kw) name = None"
  shows "\<exists>missing p. (missing, p) \<in> set params \<and> param_kind p = KEYWORD_ONLY
      \<and> \<not> has_default p
      \<and> map_of (assemble self request kw) missing = None
      \<and> handler_call self parse_qs request =
          ([], Inr (PResponse (HTTPBadRequest (''Missing argument: '' @ missing))))"
proof -
  from assms(1) have req: "self_required_kw_args self = get_required_kw_args params"
    by (auto simp add: RequestHandler_def split: sum.splits)
  from assms(2-4) have "name \<in> set (self_required_kw_args self)"
    unfolding req required_kw_args_iff by blast
  from missing_required_Some [OF this assms(6)] obtain m where
    m: "missing_required (self_required_kw_args self) (assemble self request kw) = Some m"
    and "m \<in> set (self_required_kw_args self)"
    and absent: "map_of (assemble self request kw) m = None"
    by blast
  then obtain p where "(m, p) \<in> set params" "param_kind p = KEYWORD_ONLY" "\<not> has_default p"
    unfolding req required_kw_args_iff by blast
  moreover have "handler_call self parse_qs request =
      ([], Inr (PResponse (HTTPBadRequest (''Missing argument: '' @ m))))"
    by (simp add: handler_call_def assms(5) m)
  ultimately show ?thesis using absent by blast
qed

theorem missing_argument_bad_request_witness:
  "handler_call
     \<lparr>self_func = (\<lambda>kw. Returns (PStr ''ok'')), self_has_request_arg = True,
      self_has_var_kw_arg = False, self_has_named_kw_args = True,
      self_named_kw_args = [''name'', ''request''],
      self_required_kw_args = [''name'', ''request'']\<rparr>
     (\<lambda>qs. []) missing_name_request =
   ([], Inr (PResponse (HTTPBadRequest ''Missing argument: name'')))"
proof -
  let ?self = "\<lparr>self_func = (\<lambda>kw. Returns (PStr ''ok'')), self_has_request_arg = True,
      self_has_var_kw_arg = False, self_has_named_kw_args = True,
      self_named_kw_args = [''name'', ''request''],
      self_required_kw_args = [''name'', ''request'']\<rparr>"
  have p: "parse_params ?self (\<lambda>qs. []) missing_name_request = Go (Some [(''extra'', PStr ''y'')])"
    by (simp add: parse_params_def post_params_def lower_json startswith_def
        missing_name_request_def example_request_def)
  have a: "assemble ?self missing_name_request (Some [(''extra'', PStr ''y'')]) =
      [(''id'', Val (PInt 42)), (''request'', Req missing_name_request)]"
    by (simp add: assemble_def missing_name_request_def example_request_def)
  have k: "(''name'', \<lparr>param_kind = KEYWORD_ONLY, has_default = False\<rparr>) \<in> set example_signature"
    by (simp add: example_signature_def)
  from missing_argument_bad_request [OF example_handler k _ _ p]
  obtain missing where
    "map_of (assemble ?self missing_name_request (Some [(''extra'', PStr ''y'')])) missing = None"
    "handler_call ?self (\<lambda>qs. []) missing_name_request =
       ([], Inr (PResponse (HTTPBadRequest (''Missing argument: '' @ missing))))"
    "\<exists>p. (missing, p) \<in> set example_signature \<and> param_kind p = KEYWORD_ONLY"
    unfolding a by auto
  moreover from this have "missing = ''name''"
    unfolding a by (auto simp add: example_signature_def)
  ultimately show ?thesis by simp
qed

section \<open>Defaults of fields\<close>

lemma collect_fields_key_mapped:
  "collect_fields attrs (m, fs, pk) = Inr (m', fs', Some k) \<Longrightarrow>
   (\<And>k0. pk = Some k0 \<Longrightarrow> k0 \<in> fst ` set m) \<Longrightarrow> k \<in> fst ` set m'"
proof (induction attrs m arbitrary: fs pk rule: field_mappings.induct)
  case (2 a v rest m)
  show ?case
  proof (cases "primary_key v")
    case True
    with "2.prems"(1) have
      "collect_fields rest (AList.update a v m, fs, Some a) = Inr (m', fs', Some k)"
      by (simp split: if_splits)
    from "2.IH" [OF this] show ?thesis by (simp add: dom_update)
  next
    case False
    with "2.prems"(1) have
      "collect_fields rest (AList.update a v m, fs @ [a], pk) = Inr (m', fs', Some k)"
      by simp
    from "2.IH" [OF this] "2.prems"(2) show ?thesis by (auto simp add: dom_update)
  qed
qed auto

lemma metaclass_new_mapped:
  assumes "metaclass_new name attrs = Inr (ModelClass cls)"
  shows "set (class_fields cls) \<subseteq> fst ` set (class_mappings cls)"
    and "class_primary_key cls \<in> fst ` set (class_mappings cls)"
proof -
  from assms obtain m fs pk where
    c: "collect_fields attrs ([], [], None) = Inr (m, fs, Some pk)"
    and cls: "class_mappings cls = m" "class_fields cls = fs" "class_primary_key cls = pk"
    by (cases "name = ''Model''")
      (auto simp add: metaclass_new_def Let_def split: if_splits sum.splits prod.splits
        elim!: key_truthy.elims)
  from collect_fields_result [OF c] nonkey_fields_mapped [of attrs "[]"] cls
  show "set (class_fields cls) \<subseteq> fst ` set (class_mappings cls)" by simp
  from collect_fields_key_mapped [OF c] cls
  show "class_primary_key cls \<in> fst ` set (class_mappings cls)" by simp
qed

lemma getValueOrDefault_mapped:
  assumes "k \<in> fst ` set (class_mappings (inst_class self))"
  shows "\<exists>self' v. getValueOrDefault class_attr self k = (self', Inr v)
    \<and> inst_class self' = inst_class self
    \<and> (\<forall>k'. k' \<noteq> k \<longrightarrow> map_of (inst_items self') k' = map_of (inst_items self) k')"
proof -
  from assms obtain fld where "map_of (class_mappings (inst_class self)) k = Some fld"
    by (cases "map_of (class_mappings (inst_class self)) k") (auto simp add: map_of_eq_None_iff)
  then show ?thesis
    by (simp add: getValueOrDefault_def Let_def setattr_def update_conv')
qed

lemma getValueOrDefault_default:
  assumes "class_attr key = None"
    and "map_of (class_mappings (inst_class self)) key = Some fld"
    and "field_default fld \<noteq> DefaultValue PNone"
    and "map_of (inst_items self) key = None \<or> map_of (inst_items self) key = Some PNone
      \<or> map_of (inst_items self) key = Some (default_value (field_default fld))"
  shows "\<exists>self'. getValueOrDefault class_attr self key =
      (self', Inr (default_value (field_default fld)))
    \<and> inst_class self' = inst_class self
    \<and> map_of (inst_items self') key = Some (default_value (field_default fld))"
  using assms
  by (auto simp add: getValueOrDefault_def getattr_or_None_def Let_def setattr_def update_conv')

lemma map_getValueOrDefault_default:
  assumes "class_attr key = None"
    and "map_of (class_mappings cls) key = Some fld"
    and "field_default fld \<noteq> DefaultValue PNone"
  shows "set ks \<subseteq> fst ` set (class_mappings cls) \<Longrightarrow> inst_class self = cls \<Longrightarrow>
    map_of (inst_items self) key \<in> {None, Some PNone, Some (default_value (field_default fld))} \<Longrightarrow>
    \<exists>self' vs. map_getValueOrDefault class_attr self ks = (self', Inr vs)
      \<and> length vs = length ks
      \<and> inst_class self' = cls
      \<and> map_of (inst_items self') key
          \<in> {None, Some PNone, Some (default_value (field_default fld))}
      \<and> (map_of (inst_items self) key = Some (default_value (field_default fld)) \<longrightarrow>
           map_of (inst_items self') key = Some (default_value (field_default fld)))
      \<and> (key \<in> set ks \<longrightarrow>
           map_of (inst_items self') key = Some (default_value (field_default fld)))
      \<and> (\<forall>i<length ks. ks ! i = key \<longrightarrow> vs ! i = default_value (field_default fld))"
proof (induction ks arbitrary: self)
  case Nil
  then show ?case by simp
next
  case (Cons k ks)
  let ?dv = "default_value (field_default fld)"
  let ?ok = "\<lambda>s. map_of (inst_items s) key \<in> {None, Some PNone, Some ?dv}"
  have "\<exists>self1 v. getValueOrDefault class_attr self k = (self1, Inr v)
      \<and> inst_class self1 = cls \<and> ?ok self1
      \<and> (k = key \<longrightarrow> v = ?dv \<and> map_of (inst_items self1) key = Some ?dv)
      \<and> (map_of (inst_items self) key = Some ?dv \<longrightarrow> map_of (inst_items self1) key = Some ?dv)"
  proof (cases "k = key")
    case True
    have "map_of (class_mappings (inst_class self)) key = Some fld"
      using assms(2) Cons.prems(2) by simp
    from getValueOrDefault_default [where class_attr = class_attr and key = key, OF assms(1) this assms(3)]
      Cons.prems(2,3) True
    show ?thesis by auto
  next
    case False
    from Cons.prems(1,2) have "k \<in> fst ` set (class_mappings (inst_class self))" by simp
    from getValueOrDefault_mapped [OF this, of class_attr] False Cons.prems(2,3)
    show ?thesis by auto
  qed
  then obtain self1 v where
    step: "getValueOrDefault class_attr self k = (self1, Inr v)"
    and c1: "inst_class self1 = cls"
    and s1: "?ok self1"
    and k1: "k = key \<longrightarrow> v = ?dv \<and> map_of (inst_items self1) key = Some ?dv"
    and p1: "map_of (inst_items self) key = Some ?dv \<longrightarrow> map_of (inst_items self1) key = Some ?dv"
    by blast
  from Cons.prems(1) have ks: "set ks \<subseteq> fst ` set (class_mappings cls)" by simp
  from Cons.IH [OF ks c1 s1] obtain self2 vs where
    rest: "map_getValueOrDefault class_attr self1 ks = (self2, Inr vs)"
    and len: "length vs = length ks"
    and c2: "inst_class self2 = cls"
    and s2: "?ok self2"
    and p2: "map_of (inst_items self1) key = Some ?dv \<longrightarrow> map_of (inst_items self2) key = Some ?dv"
    and in2: "key \<in> set ks \<longrightarrow> map_of (inst_items self2) key = Some ?dv"
    and nth2: "\<forall>i<length ks. ks ! i = key \<longrightarrow> vs ! i = ?dv"
    by blast
  have res: "map_getValueOrDefault class_attr self (k # ks) = (self2, Inr (v # vs))"
    by (simp add: step rest)
  have nth: "\<forall>i<length (k # ks). (k # ks) ! i = key \<longrightarrow> (v # vs) ! i = ?dv"
    using k1 nth2 by (auto simp add: nth_Cons split: nat.splits)
  have inset: "key \<in> set (k # ks) \<longrightarrow> map_of (inst_items self2) key = Some ?dv"
    using k1 p2 in2 by auto
  from res len c2 s2 p1 p2 inset nth show ?case
    by (intro exI [of _ self2] exI [of _ "v # vs"]) simp
qed

lemma execute_autocommit_trace:
  "acquire_r drv = None \<Longrightarrow>
   \<exists>rest res. execute drv sql args True =
     ([LogSQL sql, Acquire, CursorOpen,
       Execute (replace_placeholders sql) (args_or_empty args)] @ rest, res)"
  by (simp add: execute_def on_exception_def Let_def split: sum.splits)

lemma note_class_built: "metaclass_new ''Note'' note_attrs = Inr (ModelClass note_class)"
  by (simp add: metaclass_new_def note_attrs_def note_class_def StringField_def TextField_def
      AList.update.simps set_item_def name_or_def create_args_string_def numeral_2_eq_2 Let_def)

text \<open>
  C8, as stated, at two fields of a class the metaclass has built, both with a
  declared default that is not \<open>None\<close> and both assigned \<open>None\<close>. For the field
  named \<open>values\<close>, \<open>getattr\<close> finds the method of \<open>dict\<close>, so
  \<open>getValueOrDefault\<close> returns the method, stores nothing, and \<open>save\<close> passes the
  method to the \<open>INSERT\<close>, not the default \<open>'none'\<close>. For the field \<open>note\<close> the
  default is a producer that returns \<open>None\<close>, and \<open>save\<close> passes \<open>None\<close> to the
  \<open>INSERT\<close>.
\<close>

theorem default_not_used_counterexample:
  "getValueOrDefault model_class_attr empty_note ''values'' = (empty_note, Inr (PObj 1))
   \<and> map_of (inst_items (fst (getValueOrDefault model_class_attr empty_note ''values'')))
         ''values'' = Some PNone
   \<and> snd (save two_rows_driver model_class_attr empty_note) =
       ([LogSQL ''insert into `Note` (`values`, `note`, `id`) values (?, ?, ?)'',
         Acquire, CursorOpen,
         Execute ''insert into `Note` (`values`, `note`, `id`) values (%s, %s, %s)''
           [PObj 1, PNone, PStr ''001''],
         CursorClose, Release,
         LogWarning ''failed to insert record: affected rows: '' 2],
        Inr ())"
proof -
  have 1: "getValueOrDefault model_class_attr empty_note ''values'' = (empty_note, Inr (PObj 1))"
    by (simp add: getValueOrDefault_def getattr_or_None_def model_class_attr_def Let_def)
  have 2: "map_of (inst_items empty_note) ''values'' = Some PNone"
    by (simp add: empty_note_def new_model_def)
  have 3: "snd (save two_rows_driver model_class_attr empty_note) =
       ([LogSQL ''insert into `Note` (`values`, `note`, `id`) values (?, ?, ?)'',
         Acquire, CursorOpen,
         Execute ''insert into `Note` (`values`, `note`, `id`) values (%s, %s, %s)''
           [PObj 1, PNone, PStr ''001''],
         CursorClose, Release,
         LogWarning ''failed to insert record: affected rows: '' 2],
        Inr ())"
    by (simp add: save_def empty_note_def new_model_def note_class_def getValueOrDefault_def
        getattr_or_None_def model_class_attr_def setattr_def StringField_def TextField_def
        execute_def two_rows_driver_def replace_placeholders_def args_or_empty_def Let_def)
  from 1 2 3 show ?thesis by simp
qed

text \<open>
  C8, amended: take an instance of a class the metaclass has built, and a non-key
  field \<open>key\<close> (the \<open>i\<close>-th of \<open>__fields__\<close>) whose declared default is not
  \<open>None\<close> and whose name attribute lookup does not find on the class or its bases.
  When the stored value is \<open>None\<close>, absent or assigned, \<open>getValueOrDefault\<close>
  returns the field's default (the declared value, or what the producer returns) and
  stores it in the instance; and \<open>save\<close>, on a leased connection, executes the
  canned \<open>INSERT\<close> with that default as its \<open>i\<close>-th parameter, which is \<open>None\<close>
  exactly when the default is a producer that returns \<open>None\<close>, and leaves the
  default stored in the instance.
\<close>

theorem default_replaces_None:
  assumes "metaclass_new name attrs = Inr (ModelClass cls)"
    and "inst_class self = cls"
    and "i < length (class_fields cls)" and "class_fields cls ! i = key"
    and "map_of (class_mappings cls) key = Some fld"
    and "field_default fld \<noteq> DefaultValue PNone"
    and "class_attr key = None"
    and "map_of (inst_items self) key = None \<or> map_of (inst_items self) key = Some PNone"
    and "acquire_r drv = None"
  shows "getValueOrDefault class_attr self key =
      (setattr self key (default_value (field_default fld)),
       Inr (default_value (field_default fld)))
    \<and> map_of (inst_items (setattr self key (default_value (field_default fld)))) key =
        Some (default_value (field_default fld))
    \<and> (\<exists>self' args rest res.
          save drv class_attr self =
            (self',
             [LogSQL (class_insert cls), Acquire, CursorOpen,
              Execute (replace_placeholders (class_insert cls)) args] @ rest,
             res)
          \<and> length args = length (class_fields cls) + 1
          \<and> args ! i = default_value (field_default fld)
          \<and> (args ! i = PNone \<longleftrightarrow> field_default fld = DefaultCallable PNone)
          \<and> map_of (inst_items self') key = Some (default_value (field_default fld)))"
proof -
  let ?dv = "default_value (field_default fld)"
  have none: "?dv = PNone \<longleftrightarrow> field_default fld = DefaultCallable PNone"
    using assms(6) by (cases "field_default fld") auto
  have 1: "getValueOrDefault class_attr self key = (setattr self key ?dv, Inr ?dv)"
    using assms(2,5-8)
    by (auto simp add: getValueOrDefault_def getattr_or_None_def Let_def)
  have 2: "map_of (inst_items (setattr self key ?dv)) key = Some ?dv"
    by (simp add: setattr_def update_conv')
  note wf = metaclass_new_mapped [OF assms(1)]
  have ok: "map_of (inst_items self) key \<in> {None, Some PNone, Some ?dv}"
    using assms(8) by auto
  from map_getValueOrDefault_default [where class_attr = class_attr and key = key,
      OF assms(7,5,6) wf(1) assms(2) ok]
  obtain self1 vs where
    m: "map_getValueOrDefault class_attr self (class_fields cls) = (self1, Inr vs)"
    and len: "length vs = length (class_fields cls)"
    and c1: "inst_class self1 = cls"
    and in1: "key \<in> set (class_fields cls) \<longrightarrow> map_of (inst_items self1) key = Some ?dv"
    and nth1: "\<forall>j<length (class_fields cls). class_fields cls ! j = key \<longrightarrow> vs ! j = ?dv"
    by blast
  from assms(3,4) have "key \<in> set (class_fields cls)" by auto
  with in1 have s1: "map_of (inst_items self1) key = Some ?dv" by simp
  from nth1 assms(3,4) have vi: "vs ! i = ?dv" by simp
  have "\<exists>self2 pk. getValueOrDefault class_attr self1 (class_primary_key cls) = (self2, Inr pk)
      \<and> map_of (inst_items self2) key = Some ?dv"
  proof (cases "class_primary_key cls = key")
    case True
    have "map_of (class_mappings (inst_class self1)) key = Some fld"
      using assms(5) c1 by simp
    from getValueOrDefault_default [where class_attr = class_attr and key = key,
      OF assms(7) this assms(6)] s1 True
    show ?thesis by auto
  next
    case False
    from wf(2) c1 have "class_primary_key cls \<in> fst ` set (class_mappings (inst_class self1))"
      by simp
    from getValueOrDefault_mapped [OF this, of class_attr] False s1
    show ?thesis by auto
  qed
  then obtain self2 pk where
    g: "getValueOrDefault class_attr self1 (class_primary_key cls) = (self2, Inr pk)"
    and s2: "map_of (inst_items self2) key = Some ?dv"
    by blast
  from execute_autocommit_trace [OF assms(9), of "class_insert cls" "Some (vs @ [pk])"]
  obtain rest res where
    e: "execute drv (class_insert cls) (Some (vs @ [pk])) True =
      ([LogSQL (class_insert cls), Acquire, CursorOpen,
        Execute (replace_placeholders (class_insert cls)) (vs @ [pk])] @ rest, res)"
    by (auto simp add: args_or_empty_def)
  have "\<exists>rest' res'. save drv class_attr self =
      (self2,
       [LogSQL (class_insert cls), Acquire, CursorOpen,
        Execute (replace_placeholders (class_insert cls)) (vs @ [pk])] @ rest', res')"
    using m g e assms(2) by (cases res) (simp_all add: save_def)
  moreover have "length (vs @ [pk]) = length (class_fields cls) + 1" using len by simp
  moreover have "(vs @ [pk]) ! i = ?dv" using vi len assms(3) by (simp add: nth_append)
  ultimately show ?thesis using 1 2 s2 none by metis
qed

theorem default_replaces_None_witness:
  "getValueOrDefault model_class_attr admin_user ''admin'' =
     (setattr admin_user ''admin'' (PBool False), Inr (PBool False))
   \<and> (\<exists>self' rest res.
        save two_rows_driver model_class_attr admin_user =
          (self',
           [LogSQL ''insert into `users` (`email`, `admin`, `id`) values (?, ?, ?)'',
            Acquire, CursorOpen,
            Execute ''insert into `users` (`email`, `admin`, `id`) values (%s, %s, %s)''
              [PStr ''a@example.com'', PBool False, PStr ''001'']] @ rest,
           res))"
proof -
  have h: "inst_class admin_user = user_class" "1 < length (class_fields user_class)"
    "class_fields user_class ! 1 = ''admin''"
    "map_of (class_mappings user_class) ''admin'' = Some (BooleanField None (DefaultValue (PBool False)))"
    "field_default (BooleanField None (DefaultValue (PBool False))) \<noteq> DefaultValue PNone"
    "model_class_attr ''admin'' = None"
    "map_of (inst_items admin_user) ''admin'' = None \<or> map_of (inst_items admin_user) ''admin'' = Some PNone"
    "acquire_r two_rows_driver = None"
    by (simp_all add: admin_user_def new_model_def user_class_def BooleanField_def
        model_class_attr_def two_rows_driver_def)
  have d: "default_value (field_default (BooleanField None (DefaultValue (PBool False)))) = PBool False"
    by (simp add: BooleanField_def)
  have s: "save two_rows_driver model_class_attr admin_user =
      (fst (save two_rows_driver model_class_attr admin_user),
       [LogSQL ''insert into `users` (`email`, `admin`, `id`) values (?, ?, ?)'',
        Acquire, CursorOpen,
        Execute ''insert into `users` (`email`, `admin`, `id`) values (%s, %s, %s)''
          [PStr ''a@example.com'', PBool False, PStr ''001''], CursorClose, Release,
        LogWarning ''failed to insert record: affected rows: '' 2],
       Inr ())"
    by (simp add: save_def admin_user_def new_model_def user_class_def getValueOrDefault_def
        getattr_or_None_def model_class_attr_def setattr_def StringField_def BooleanField_def
        execute_def two_rows_driver_def replace_placeholders_def args_or_empty_def Let_def)
  from default_replaces_None [where class_attr = model_class_attr and key = "''admin''",
      OF user_class_built h] d
  have "getValueOrDefault model_class_attr admin_user ''admin'' =
     (setattr admin_user ''admin'' (PBool False), Inr (PBool False))"
    by simp
  with s show ?thesis by (metis append_Cons append_Nil)
qed

end
